theory Spec2Isabelle
  imports Complex_Main "HOL-Library.AList" "HOL-Library.Sublist"
begin

section \<open>Tables of oemof-B3's data processing\<close>

text \<open>
  The module \<^verbatim>\<open>oemof_b3/tools/data_processing.py\<close> works on pandas DataFrames. A
  DataFrame is embedded as its ordered column labels together with its rows; a row maps a
  column label to a cell. Rows carry the default index \<open>0, 1, 2, ...\<close>, so the label lookup
  \<^verbatim>\<open>df[col][i]\<close> of the source is the \<open>i\<close>-th row at \<open>col\<close>.

  A number of a table is a finite value, an infinity or the float NaN. What numpy computes
  from two numbers (an int64 sum wraps around, a float64 sum is rounded) is not fixed by the
  embedding: addition and subtraction are parameters.
\<close>

datatype number = Fin real | PosInf | NegInf | NaNv

record arithmetic =
  np_plus :: "number \<Rightarrow> number \<Rightarrow> number"
  np_minus :: "number \<Rightarrow> number \<Rightarrow> number"

text \<open>
  A cell is one of the Python values the module handles: \<^verbatim>\<open>None\<close>, a string, a number, a
  timestamp (an integer count of time units), the missing timestamp \<^verbatim>\<open>NaT\<close>, a flat numeric
  sequence (a \<^verbatim>\<open>series\<close>), or a sequence of numeric rows (what numpy returns for a
  two-dimensional selection). pandas marks an empty cell of a file by the float NaN, in a
  column of timestamps by \<^verbatim>\<open>NaT\<close>.
\<close>

datatype cell =
    PyNone
  | Str string
  | Num number
  | Stamp int
  | NaT
  | Seq "number list"
  | Table "number list list"

text \<open>
  Python's \<^verbatim>\<open>a == b\<close> on two cells: NaN and \<^verbatim>\<open>NaT\<close> are equal to nothing, not even to
  themselves; any other cell is equal to itself only. (Two sequences are compared as
  wholes; that a NaN inside a sequence can make it differ from itself is not followed.)
\<close>

definition nan_like :: "cell \<Rightarrow> bool" where
  "nan_like c \<longleftrightarrow> c = Num NaNv \<or> c = NaT"

definition py_eq :: "cell \<Rightarrow> cell \<Rightarrow> bool" where
  "py_eq a b \<longleftrightarrow> a = b \<and> \<not> nan_like a"

text \<open>
  The comparison \<^verbatim>\<open>array == value\<close> of a pandas array with one value, element by element:
  it is false wherever the element or the value is missing, and \<^verbatim>\<open>None\<close> counts as missing
  there as NaN and \<^verbatim>\<open>NaT\<close> do.
\<close>

definition missing :: "cell \<Rightarrow> bool" where
  "missing c \<longleftrightarrow> c = PyNone \<or> nan_like c"

definition array_eq :: "cell \<Rightarrow> cell \<Rightarrow> bool" where
  "array_eq element v \<longleftrightarrow> element = v \<and> \<not> missing element"

type_synonym row = "string \<Rightarrow> cell"

record dataframe =
  columns :: "string list"
  rows :: "row list"

text \<open>
  Every \<^verbatim>\<open>raise\<close> of the module is a constructor of \<open>error\<close>, named after the failure it
  reports. \<open>IndexError\<close>, \<open>KeyError\<close>, \<open>TypeError\<close>, \<open>NameError\<close> and \<open>ValueError\<close> are
  the exceptions Python, numpy and pandas raise themselves (a subscript out of range, a label
  that is missing, an operand of the wrong type, a variable that was never bound, data whose
  shape does not fit or that is too short). \<open>PandasError\<close> is an exception raised inside
  a pandas function that the embedding takes as a parameter. \<open>Unmodelled\<close> is no
  exception: it marks the inputs on which the embedding does not follow Python, numpy or
  pandas, namely arithmetic and reshaping on operands of more than one dimension, and the
  test whether a NaN is an item of a list, which depends on the identity of objects.
\<close>

datatype error =
    InvalidSchemaKind string
  | MissingRequiredColumns "string list"
  | MissingRegion
  | UnrecognizedSchema "string list" "string list"
  | InvalidFilterKey string "string list"
  | InvalidAggregationKey string "string list"
  | MissingColumn string
  | UnknownVariable cell
  | MissingTimeField string string
  | InconsistentTimeIndex string string
  | NotTimeIndexed
  | NoFixedFrequency
  | IndexError
  | KeyError string
  | TypeError
  | NameError
  | ValueError
  | PandasError
  | Unmodelled

text \<open>What the module prints (\<^verbatim>\<open>User info\<close>, \<^verbatim>\<open>User warning\<close>) is returned as a list of notices.\<close>

datatype notice =
    ValueNotFound cell string
  | FrequencyInferred string
  | ColumnLost string

subsection \<open>Strings\<close>

text \<open>\<^verbatim>\<open>needle in haystack\<close> on Python strings: \<open>needle\<close> occurs as a contiguous part.\<close>

fun str_in :: "string \<Rightarrow> string \<Rightarrow> bool" where
  "str_in needle [] = (needle = [])"
| "str_in needle (c # cs) = (prefix needle (c # cs) \<or> str_in needle cs)"

text \<open>\<^verbatim>\<open>s.split(sep)\<close> for a one-character separator: every separator ends a segment, so
  the result is never empty and may hold empty segments.\<close>

fun split_on :: "char \<Rightarrow> string \<Rightarrow> string list" where
  "split_on sep [] = [[]]"
| "split_on sep (c # cs) =
     (if c = sep then [] # split_on sep cs
      else (case split_on sep cs of
              [] \<Rightarrow> [[c]]
            | w # ws \<Rightarrow> (c # w) # ws))"

text \<open>\<^verbatim>\<open>list(dict.fromkeys(xs))\<close>: the distinct elements in the order of their first
  occurrence.\<close>

definition dict_fromkeys :: "'a list \<Rightarrow> 'a list" where
  "dict_fromkeys xs = fold (\<lambda>x seen. if x \<in> set seen then seen else seen @ [x]) xs []"

subsection \<open>The schema registry\<close>

definition header_scalars :: "string list" where
  "header_scalars =
     [''id_scal'', ''scenario'', ''name'', ''var_name'', ''carrier'', ''region'', ''tech'',
      ''type'', ''var_value'', ''var_unit'', ''reference'', ''comment'']"

definition optional_header_scalars :: "string list" where
  "optional_header_scalars = [''id_scal'', ''var_unit'', ''reference'', ''comment'']"

definition header_timeseries :: "string list" where
  "header_timeseries =
     [''id_ts'', ''region'', ''var_name'', ''timeindex_start'', ''timeindex_stop'',
      ''timeindex_resolution'', ''series'', ''var_unit'', ''source'', ''comment'']"

definition optional_header_timeseries :: "string list" where
  "optional_header_timeseries = [''id_ts'', ''var_unit'', ''source'', ''comment'']"

text \<open>\<^verbatim>\<open>get_optional_required_header\<close>: the required header is a copy of the header from
  which each optional label is removed in turn (\<^verbatim>\<open>list.remove\<close> deletes the first
  occurrence; every optional label occurs in its header, so it never raises here).\<close>

definition get_optional_required_header ::
  "string \<Rightarrow> error + (string list \<times> string list \<times> string list)" where
  "get_optional_required_header data_type =
     (if data_type = ''scalars''
      then Inr (header_scalars, optional_header_scalars,
                fold remove1 optional_header_scalars header_scalars)
      else if data_type = ''timeseries''
      then Inr (header_timeseries, optional_header_timeseries,
                fold remove1 optional_header_timeseries header_timeseries)
      else Inl (InvalidSchemaKind data_type))"

definition required_header_scalars :: "string list" where
  "required_header_scalars = fold remove1 optional_header_scalars header_scalars"

definition required_header_timeseries :: "string list" where
  "required_header_timeseries = fold remove1 optional_header_timeseries header_timeseries"

subsection \<open>Classifying a table by its header\<close>

text \<open>
  \<^verbatim>\<open>df_filtered\<close> and \<^verbatim>\<open>df_agg\<close> start alike: a copy of the table's header loses, for each
  label of the header that is optional in either schema, the first occurrence of that label.
  \<^verbatim>\<open>
    df_header_required = df_header.copy()
    for item in df_header:
        if item in optional_header_scalars:
            df_header_required.remove(item)
        elif item in optional_header_timeseries:
            df_header_required.remove(item)
  \<close>
\<close>

definition drop_optional :: "string \<Rightarrow> string list \<Rightarrow> string list" where
  "drop_optional item df_header_required =
     (if item \<in> set optional_header_scalars then remove1 item df_header_required
      else if item \<in> set optional_header_timeseries then remove1 item df_header_required
      else df_header_required)"

definition df_header_required :: "string list \<Rightarrow> string list" where
  "df_header_required df_header = fold drop_optional df_header df_header"

text \<open>A label is optional when either schema lists it as optional.\<close>

definition is_optional :: "string \<Rightarrow> bool" where
  "is_optional c \<longleftrightarrow> c \<in> set optional_header_scalars \<or> c \<in> set optional_header_timeseries"

subsection \<open>Filtering\<close>

text \<open>The inner loop of \<^verbatim>\<open>df_filtered\<close>: every row whose cell at \<open>key\<close> equals \<open>value\<close> is
  appended to the result, in row order.\<close>

primrec append_matches :: "cell \<Rightarrow> string \<Rightarrow> row list \<Rightarrow> row list \<Rightarrow> row list" where
  "append_matches value key [] out = out"
| "append_matches value key (r # rs) out =
     append_matches value key rs (if py_eq value (r key) then out @ [r] else out)"

text \<open>The outer loop over the requested values: a value that is no item of the column is
  reported, any other value has its rows appended. \<^verbatim>\<open>value not in list(df[key])\<close> holds
  when no item of the list is the same object as the value or equal to it; for a value
  other than NaN and \<^verbatim>\<open>NaT\<close> that is: no item is equal to it. For NaN and \<^verbatim>\<open>NaT\<close> the answer
  depends on the identity of objects, and \<^verbatim>\<open>df_filtered\<close> is not followed on such a value.\<close>

fun filter_values ::
  "dataframe \<Rightarrow> string \<Rightarrow> cell list \<Rightarrow> notice list \<times> row list \<Rightarrow> notice list \<times> row list" where
  "filter_values df key [] acc = acc"
| "filter_values df key (value # values) (msgs, out) =
     (if value \<notin> set (map (\<lambda>r. r key) (rows df))
      then filter_values df key values (msgs @ [ValueNotFound value key], out)
      else filter_values df key values (msgs, append_matches value key (rows df) out))"

definition df_filtered ::
  "dataframe \<Rightarrow> string \<Rightarrow> cell list \<Rightarrow> error + (notice list \<times> dataframe)" where
  "df_filtered df key values =
     (let df_header = columns df;
          required = df_header_required df_header;
          options =
            (if required = required_header_scalars
             then Inr [''scenario'', ''region'', ''carrier'', ''tech'', ''type'', ''var_name'']
             else if required = required_header_timeseries
             then Inr [''region'', ''var_name'']
             else Inl (UnrecognizedSchema header_timeseries header_scalars))
      in case options of
           Inl e \<Rightarrow> Inl e
         | Inr filter_options \<Rightarrow>
             if key \<notin> set filter_options then Inl (InvalidFilterKey key filter_options)
             else if key \<notin> set df_header then Inl (MissingColumn key)
             else if list_ex nan_like values then Inl Unmodelled
             else (case filter_values df key values ([], []) of
                     (msgs, out) \<Rightarrow> Inr (msgs, \<lparr>columns = columns df, rows = out\<rparr>)))"

subsection \<open>Aggregation of scalars\<close>

text \<open>
  \<^verbatim>\<open>results_dict\<close> is a Python dict from strings to numbers. Its items are read back in
  insertion order, so it is an association list: \<open>AList.update\<close> overwrites the value of a
  key in place and appends a new key at the end, as assignment to a dict item does.
\<close>

type_synonym results = "(string \<times> number) list"

text \<open>\<^verbatim>\<open>if k not in results_dict.keys(): results_dict[k] = 0\<close>\<close>

definition init_key :: "string \<Rightarrow> results \<Rightarrow> results" where
  "init_key k d = (if k \<notin> fst ` set d then AList.update k (Fin 0) d else d)"

text \<open>\<^verbatim>\<open>results_dict[k] = results_dict[k] + df["var_value"][index]\<close>, and the same with
  \<^verbatim>\<open>-\<close>, in the arithmetic \<open>A\<close> of the column. Adding anything but a number to a number
  raises \<^verbatim>\<open>TypeError\<close>.\<close>

definition add_value :: "arithmetic \<Rightarrow> string \<Rightarrow> cell \<Rightarrow> results \<Rightarrow> error + results" where
  "add_value A k v d =
     (case map_of d k of
        None \<Rightarrow> Inl (KeyError k)
      | Some s \<Rightarrow>
          (case v of Num x \<Rightarrow> Inr (AList.update k (np_plus A s x) d) | _ \<Rightarrow> Inl TypeError))"

definition sub_value :: "arithmetic \<Rightarrow> string \<Rightarrow> cell \<Rightarrow> results \<Rightarrow> error + results" where
  "sub_value A k v d =
     (case map_of d k of
        None \<Rightarrow> Inl (KeyError k)
      | Some s \<Rightarrow>
          (case v of Num x \<Rightarrow> Inr (AList.update k (np_minus A s x) d) | _ \<Rightarrow> Inl TypeError))"

text \<open>The sign convention of flows, costs and invest:
  \<^verbatim>\<open>
    if "in" in df["var_name"][index]:    results_dict[k] = results_dict[k] + value
    elif "out" in df["var_name"][index]: results_dict[k] = results_dict[k] - value
  \<close>\<close>

definition signed_value ::
  "arithmetic \<Rightarrow> string \<Rightarrow> string \<Rightarrow> cell \<Rightarrow> results \<Rightarrow> error + results" where
  "signed_value A var_name k v d =
     (if str_in ''in'' var_name then add_value A k v d
      else if str_in ''out'' var_name then sub_value A k v d
      else Inr d)"

text \<open>
  The body of the row loop for a row of the current group: the chain of
  \<^verbatim>\<open>if "capacity" in ... elif "flow" in ... elif "costs" in ... elif "invest" in ...
  elif "losses" in ... else raise ValueError\<close>. On a \<^verbatim>\<open>var_name\<close> that is a sequence, \<^verbatim>\<open>in\<close>
  is membership and false for every string, so the chain ends in the \<^verbatim>\<open>raise\<close>; on
  \<^verbatim>\<open>None\<close>, a number (NaN is one) or a timestamp \<^verbatim>\<open>in\<close> itself raises \<^verbatim>\<open>TypeError\<close>.
\<close>

definition aggregate_row :: "arithmetic \<Rightarrow> string \<Rightarrow> row \<Rightarrow> results \<Rightarrow> error + results" where
  "aggregate_row A key r results_dict =
     (case r ''var_name'' of
        Str var_name \<Rightarrow>
          if str_in ''capacity'' var_name
          then add_value A ''capacity'' (r ''var_value'') (init_key ''capacity'' results_dict)
          else if str_in ''flow'' var_name
          then (let segments = split_on CHR ''_'' var_name
                in if length segments \<le> 2 then Inl IndexError
                   else (let energy_carrier = segments ! 2
                         in if \<not> str_in ''carrier'' key \<and> \<not> str_in ''tech'' key
                            then signed_value A var_name (''flow_'' @ energy_carrier)
                                   (r ''var_value'')
                                   (init_key (''flow_'' @ energy_carrier) results_dict)
                            else (case r ''carrier'' of
                                    Str carrier \<Rightarrow>
                                      signed_value A var_name
                                        (''flow_'' @ energy_carrier @ ''_'' @ carrier)
                                        (r ''var_value'')
                                        (init_key (''flow_'' @ energy_carrier @ ''_'' @ carrier)
                                           results_dict)
                                  | _ \<Rightarrow> Inl TypeError)))
          else if str_in ''costs'' var_name
          then signed_value A var_name ''costs'' (r ''var_value'') (init_key ''costs'' results_dict)
          else if str_in ''invest'' var_name
          then signed_value A var_name ''invest'' (r ''var_value'')
                 (init_key ''invest'' results_dict)
          else if str_in ''losses'' var_name
          then add_value A ''losses'' (r ''var_value'') (init_key ''losses'' results_dict)
          else Inl (UnknownVariable (Str var_name))
      | Seq xs \<Rightarrow> Inl (UnknownVariable (Seq xs))
      | Table xss \<Rightarrow> Inl (UnknownVariable (Table xss))
      | _ \<Rightarrow> Inl TypeError)"

text \<open>The loop over all rows of the table for one scenario and one item of the key column.
  A row belongs to the group when \<^verbatim>\<open>df["scenario"][index] == scenario and
  df[key][index] == key_item\<close>; a row whose scenario or key cell is NaN belongs to no group.\<close>

fun aggregate_rows ::
  "arithmetic \<Rightarrow> string \<Rightarrow> cell \<Rightarrow> cell \<Rightarrow> row list \<Rightarrow> results \<Rightarrow> error + results" where
  "aggregate_rows A key scenario key_item [] results_dict = Inr results_dict"
| "aggregate_rows A key scenario key_item (r # rs) results_dict =
     (if py_eq (r ''scenario'') scenario \<and> py_eq (r key) key_item
      then (case aggregate_row A key r results_dict of
              Inl e \<Rightarrow> Inl e
            | Inr d \<Rightarrow> aggregate_rows A key scenario key_item rs d)
      else aggregate_rows A key scenario key_item rs results_dict)"

text \<open>
  One row of the result per item of \<^verbatim>\<open>results_dict\<close>. The names \<^verbatim>\<open>region\<close>, \<^verbatim>\<open>carrier\<close> and
  \<^verbatim>\<open>tech\<close> are bound by an \<^verbatim>\<open>if/elif/elif\<close> over the three aggregation keys with no \<^verbatim>\<open>else\<close>.
\<close>

definition new_scalar_row :: "string \<Rightarrow> cell \<Rightarrow> cell \<Rightarrow> string \<times> number \<Rightarrow> error + row" where
  "new_scalar_row key scenario key_item item =
     (case (if key = ''region'' then Inr (key_item, Str ''All'', Str ''All'')
            else if key = ''carrier'' then Inr (Str ''All'', key_item, Str ''All'')
            else if key = ''tech'' then Inr (Str ''All'', Str ''All'', key_item)
            else Inl NameError) of
        Inl e \<Rightarrow> Inl e
      | Inr (region, carrier, tech) \<Rightarrow>
          Inr ((\<lambda>_. PyNone)
                (''id_scal'' := PyNone,
                 ''scenario'' := scenario,
                 ''name'' := Str (''Aggregated by '' @ key),
                 ''var_name'' := Str (fst item),
                 ''carrier'' := carrier,
                 ''region'' := region,
                 ''tech'' := tech,
                 ''type'' := Str ''All'',
                 ''var_value'' := Num (snd item),
                 ''var_unit'' := Str ''-'',
                 ''reference'' := PyNone,
                 ''comment'' := PyNone)))"

fun new_scalar_rows ::
  "string \<Rightarrow> cell \<Rightarrow> cell \<Rightarrow> results \<Rightarrow> row list \<Rightarrow> error + row list" where
  "new_scalar_rows key scenario key_item [] out = Inr out"
| "new_scalar_rows key scenario key_item (item # items) out =
     (case new_scalar_row key scenario key_item item of
        Inl e \<Rightarrow> Inl e
      | Inr new_row \<Rightarrow> new_scalar_rows key scenario key_item items (out @ [new_row]))"

text \<open>The two outer loops, \<^verbatim>\<open>for scenario in scenario_list: for key_item in key_list:\<close>, run
  over the pairs in scenario-major order.\<close>

fun aggregate_scalars ::
  "arithmetic \<Rightarrow> dataframe \<Rightarrow> string \<Rightarrow> (cell \<times> cell) list \<Rightarrow> row list \<Rightarrow> error + row list" where
  "aggregate_scalars A df key [] out = Inr out"
| "aggregate_scalars A df key ((scenario, key_item) # groups) out =
     (case aggregate_rows A key scenario key_item (rows df) [] of
        Inl e \<Rightarrow> Inl e
      | Inr results_dict \<Rightarrow>
          (case new_scalar_rows key scenario key_item results_dict out of
             Inl e \<Rightarrow> Inl e
           | Inr out' \<Rightarrow> aggregate_scalars A df key groups out'))"

subsection \<open>Aggregation of time series\<close>

text \<open>
  \<^verbatim>\<open>np.add\<close> on two flat sequences, in the arithmetic \<open>A\<close> of their numbers: element by
  element when the lengths agree, with a sequence of length one stretched to the other's
  length, and a \<^verbatim>\<open>ValueError\<close> otherwise. A number is added to every element; a string,
  \<^verbatim>\<open>None\<close> or a timestamp raises \<^verbatim>\<open>TypeError\<close>.
\<close>

definition np_add :: "arithmetic \<Rightarrow> number list \<Rightarrow> cell \<Rightarrow> error + number list" where
  "np_add A xs c =
     (case c of
        Seq ys \<Rightarrow>
          if length xs = length ys then Inr (map2 (np_plus A) xs ys)
          else if length xs = 1 then Inr (map (\<lambda>y. np_plus A (hd xs) y) ys)
          else if length ys = 1 then Inr (map (\<lambda>x. np_plus A x (hd ys)) xs)
          else Inl ValueError
      | Num y \<Rightarrow> Inr (map (\<lambda>x. np_plus A x y) xs)
      | Table yss \<Rightarrow> Inl Unmodelled
      | _ \<Rightarrow> Inl TypeError)"

text \<open>\<^verbatim>\<open>[0] * len(df["series"][0])\<close>: the zeros have the length of the series of the
  table's first row.\<close>

definition zeros_like_first :: "dataframe \<Rightarrow> error + number list" where
  "zeros_like_first df =
     (case rows df of
        [] \<Rightarrow> Inl (KeyError ''0'')
      | r # _ \<Rightarrow>
          (case r ''series'' of
             Seq xs \<Rightarrow> Inr (replicate (length xs) (Fin 0))
           | Table xss \<Rightarrow> Inr (replicate (length xss) (Fin 0))
           | Str s \<Rightarrow> Inr (replicate (length s) (Fin 0))
           | _ \<Rightarrow> Inl TypeError))"

text \<open>The loop over all rows for one item of the key column; \<open>None\<close> is the empty
  \<^verbatim>\<open>results_dict\<close>, \<open>Some s\<close> the dict whose only key \<^verbatim>\<open>"series"\<close> holds \<open>s\<close>. A row belongs
  to the item when \<^verbatim>\<open>df[key][index] == key_item\<close>; no row belongs to an item that is NaN.\<close>

fun sum_series ::
  "arithmetic \<Rightarrow> dataframe \<Rightarrow> string \<Rightarrow> cell \<Rightarrow> row list \<Rightarrow> number list option \<Rightarrow>
   error + number list option" where
  "sum_series A df key key_item [] results_dict = Inr results_dict"
| "sum_series A df key key_item (r # rs) results_dict =
     (if py_eq (r key) key_item
      then (case (case results_dict of None \<Rightarrow> zeros_like_first df | Some s \<Rightarrow> Inr s) of
              Inl e \<Rightarrow> Inl e
            | Inr s \<Rightarrow>
                (case np_add A s (r ''series'') of
                   Inl e \<Rightarrow> Inl e
                 | Inr s' \<Rightarrow> sum_series A df key key_item rs (Some s')))
      else sum_series A df key key_item rs results_dict)"

definition new_timeseries_row ::
  "dataframe \<Rightarrow> string \<Rightarrow> cell \<Rightarrow> number list option \<Rightarrow> error + row" where
  "new_timeseries_row df key key_item results_dict =
     (case rows df of
        [] \<Rightarrow> Inl (KeyError ''0'')
      | r0 # _ \<Rightarrow>
          (case results_dict of
             None \<Rightarrow> Inl (KeyError ''series'')
           | Some s \<Rightarrow>
               Inr ((\<lambda>_. PyNone)
                     (''id_ts'' := PyNone,
                      ''region'' := key_item,
                      ''var_name'' := Str (''Aggregated by '' @ key),
                      ''timeindex_start'' := r0 ''timeindex_start'',
                      ''timeindex_stop'' := r0 ''timeindex_stop'',
                      ''timeindex_resolution'' := r0 ''timeindex_resolution'',
                      ''series'' := Seq s,
                      ''var_unit'' := Str ''-'',
                      ''source'' := PyNone,
                      ''comment'' := PyNone))))"

fun aggregate_timeseries ::
  "arithmetic \<Rightarrow> dataframe \<Rightarrow> string \<Rightarrow> cell list \<Rightarrow> row list \<Rightarrow> error + row list" where
  "aggregate_timeseries A df key [] out = Inr out"
| "aggregate_timeseries A df key (key_item # key_list) out =
     (case sum_series A df key key_item (rows df) None of
        Inl e \<Rightarrow> Inl e
      | Inr results_dict \<Rightarrow>
          (case new_timeseries_row df key key_item results_dict of
             Inl e \<Rightarrow> Inl e
           | Inr new_row \<Rightarrow> aggregate_timeseries A df key key_list (out @ [new_row])))"

subsection \<open>\<^verbatim>\<open>df_agg\<close>\<close>

text \<open>
  The result is given by the rows appended to \<^verbatim>\<open>df_agg_by_key\<close>, in the order of appending.
  A label that a new row does not set reads as the missing value. \<open>A\<close> is the arithmetic
  of the numbers of the table. \<^verbatim>\<open>dict.fromkeys\<close> may keep more than one NaN among the keys;
  since no row belongs to a NaN and the keys are visited in the order of their first
  occurrence, this does not change the result.
\<close>

definition df_agg :: "arithmetic \<Rightarrow> dataframe \<Rightarrow> string \<Rightarrow> error + row list" where
  "df_agg A df key =
     (let df_header = columns df;
          required = df_header_required df_header;
          options =
            (if required = required_header_scalars
             then Inr (True, [''region'', ''carrier'', ''tech''])
             else if required = required_header_timeseries
             then Inr (False, [''region''])
             else Inl (UnrecognizedSchema header_timeseries header_scalars))
      in case options of
           Inl e \<Rightarrow> Inl e
         | Inr (scalars, agg_options) \<Rightarrow>
             if key \<notin> set agg_options then Inl (InvalidAggregationKey key agg_options)
             else if key \<notin> set df_header then Inl (MissingColumn key)
             else (let key_list = dict_fromkeys (map (\<lambda>r. r key) (rows df))
                   in if scalars
                      then (let scenario_list =
                                  dict_fromkeys (map (\<lambda>r. r ''scenario'') (rows df))
                            in aggregate_scalars A df key (List.product scenario_list key_list)
                                 [])
                      else aggregate_timeseries A df key key_list []))"

subsection \<open>Keys a table may be filtered by\<close>


subsection \<open>Wide tables\<close>

text \<open>
  A wide (unstacked) table has a row index (the field \<open>timeindex\<close>) and one column of
  numbers per variable. Its index is either a pandas \<^verbatim>\<open>DatetimeIndex\<close>, with its timestamps
  and its frequency label \<^verbatim>\<open>freqstr\<close> (\<open>None\<close> when unset), or an index of another type, with
  its labels. The columns are kept one by one, label and values, in column order; labels
  may repeat.
\<close>

datatype pd_index =
    DatetimeIndex "int list" "string option"
  | OtherIndex "cell list"

record wide =
  timeindex :: pd_index
  data :: "(cell \<times> number list) list"

subsection \<open>\<^verbatim>\<open>check_consistency_timeindex\<close>\<close>

text \<open>
  \<^verbatim>\<open>name\<close> is bound for the three time fields only; for another label the messages of both
  \<^verbatim>\<open>raise\<close> statements read an unbound variable. \<^verbatim>\<open>df[index]\<close> raises \<^verbatim>\<open>KeyError\<close> when the
  table has no such column, and \<^verbatim>\<open>array[0]\<close> raises \<^verbatim>\<open>IndexError\<close> when it has no rows.
  \<^verbatim>\<open>np.all(df[index].array == df[index].array[0])\<close> compares every element of the column with
  the first one, as a pandas array does.
\<close>

definition check_consistency_timeindex :: "dataframe \<Rightarrow> string \<Rightarrow> error + cell" where
  "check_consistency_timeindex df index =
     (let name =
            (if index = ''timeindex_start'' then Some ''start date''
             else if index = ''timeindex_stop'' then Some ''end date''
             else if index = ''timeindex_resolution'' then Some ''frequency''
             else None)
      in if index \<notin> set (columns df) then Inl (KeyError index)
         else (case map (\<lambda>r. r index) (rows df) of
                 [] \<Rightarrow> Inl IndexError
               | first # rest \<Rightarrow>
                   if list_all (\<lambda>v. array_eq v first) (first # rest)
                   then (if first = PyNone
                         then (case name of
                                 None \<Rightarrow> Inl NameError
                               | Some n \<Rightarrow> Inl (MissingTimeField n index))
                         else Inr first)
                   else (case name of
                           None \<Rightarrow> Inl NameError
                         | Some n \<Rightarrow> Inl (InconsistentTimeIndex n index))))"

subsection \<open>\<^verbatim>\<open>stack_timeseries\<close>\<close>

text \<open>
  \<^verbatim>\<open>_df[column]\<close> selects by label. A label that one column carries selects that column, and
  \<^verbatim>\<open>list(_df[column].values)\<close> is the list of its values. A label that several columns carry
  selects all of them, \<^verbatim>\<open>.values\<close> is two-dimensional, and the list holds one array per row of
  the table. A label that no column carries raises \<^verbatim>\<open>KeyError\<close>.
\<close>

definition label_text :: "cell \<Rightarrow> string" where
  "label_text c = (case c of Str s \<Rightarrow> s | _ \<Rightarrow> [])"

definition selected_values :: "wide \<Rightarrow> cell \<Rightarrow> cell" where
  "selected_values df column =
     (case filter (\<lambda>c. fst c = column) (data df) of
        [c] \<Rightarrow> Seq (snd c)
      | cs \<Rightarrow> Table (transpose (map snd cs)))"

definition column_values :: "wide \<Rightarrow> cell \<Rightarrow> error + cell" where
  "column_values df column =
     (if filter (\<lambda>c. fst c = column) (data df) = [] then Inl (KeyError (label_text column))
      else Inr (selected_values df column))"

definition df_stacked_cols :: "string list" where
  "df_stacked_cols =
     [''var_name'', ''timeindex_start'', ''timeindex_stop'', ''timeindex_resolution'',
      ''series'']"

definition stacked_row :: "cell \<Rightarrow> cell \<Rightarrow> cell \<Rightarrow> cell \<Rightarrow> cell \<Rightarrow> row" where
  "stacked_row var_name timeindex_start timeindex_stop timeindex_resolution series =
     (\<lambda>_. PyNone)
       (''var_name'' := var_name,
        ''timeindex_start'' := timeindex_start,
        ''timeindex_stop'' := timeindex_stop,
        ''timeindex_resolution'' := timeindex_resolution,
        ''series'' := series)"

text \<open>The body of \<^verbatim>\<open>for column in df.columns\<close>: one stacked row per label of the table that
  was passed in, read from the frame \<open>frame\<close> that the code calls \<^verbatim>\<open>_df\<close>.\<close>

fun stack_columns ::
  "wide \<Rightarrow> cell \<Rightarrow> cell \<Rightarrow> cell \<Rightarrow> cell list \<Rightarrow> row list \<Rightarrow> error + row list" where
  "stack_columns frame timeindex_start timeindex_stop timeindex_resolution [] df_stacked =
     Inr df_stacked"
| "stack_columns frame timeindex_start timeindex_stop timeindex_resolution (column # labels)
     df_stacked =
     (case column_values frame column of
        Inl e \<Rightarrow> Inl e
      | Inr series \<Rightarrow>
          stack_columns frame timeindex_start timeindex_stop timeindex_resolution labels
            (df_stacked @
             [stacked_row column timeindex_start timeindex_stop timeindex_resolution series]))"

text \<open>
  \<^verbatim>\<open>pd.infer_freq\<close> and \<^verbatim>\<open>DataFrame.asfreq\<close> belong to pandas, not to the module; they are
  the parameters \<open>infer_freq\<close> and \<open>asfreq\<close>. \<open>infer_freq\<close> reads the timestamps of the index
  and answers \<open>Some (Some label)\<close> with a frequency label, \<open>Some None\<close> when it returns
  \<^verbatim>\<open>None\<close>, and \<open>None\<close> when it raises. \<open>asfreq\<close> takes the label and the table and answers
  with the table put onto that frequency, or \<open>None\<close> when it raises. It is called only when
  the index has no frequency label; from then on index, label and values are read from its
  result, while the loop still runs over the labels of the table that was passed in. An
  index of another type than \<^verbatim>\<open>DatetimeIndex\<close> in the result of \<open>asfreq\<close> is not followed.
\<close>

definition stack_timeseries ::
  "(int list \<Rightarrow> string option option) \<Rightarrow> (string \<Rightarrow> wide \<Rightarrow> wide option) \<Rightarrow> wide \<Rightarrow>
   error + (notice list \<times> dataframe)" where
  "stack_timeseries infer_freq asfreq df =
     (case timeindex df of
        OtherIndex labels \<Rightarrow> Inl NotTimeIndexed
      | DatetimeIndex stamps freqstr \<Rightarrow>
          (case infer_freq stamps of
             None \<Rightarrow> Inl PandasError
           | Some None \<Rightarrow> Inl NoFixedFrequency
           | Some (Some df_freq) \<Rightarrow>
               (case (if freqstr = None
                      then (case asfreq df_freq df of
                              None \<Rightarrow> Inl PandasError
                            | Some coerced \<Rightarrow> Inr ([FrequencyInferred df_freq], coerced))
                      else Inr ([], df)) of
                  Inl e \<Rightarrow> Inl e
                | Inr (msgs, frame) \<Rightarrow>
                    (case timeindex frame of
                       OtherIndex labels \<Rightarrow> Inl Unmodelled
                     | DatetimeIndex frame_stamps frame_freqstr \<Rightarrow>
                         if frame_stamps = [] then Inl IndexError
                         else (case stack_columns frame (Stamp (hd frame_stamps))
                                      (Stamp (last frame_stamps))
                                      (case frame_freqstr of None \<Rightarrow> PyNone | Some s \<Rightarrow> Str s)
                                      (map fst (data df)) [] of
                                 Inl e \<Rightarrow> Inl e
                               | Inr stacked \<Rightarrow>
                                   Inr (msgs, \<lparr>columns = df_stacked_cols, rows = stacked\<rparr>))))))"

subsection \<open>\<^verbatim>\<open>unstack_timeseries\<close>\<close>

text \<open>
  \<^verbatim>\<open>np.array(values_series).transpose()\<close> makes series \<open>i\<close> the column \<open>i\<close> of the values; on
  the column-wise representation of a wide table that is the list of series itself. The
  DataFrame constructor raises \<^verbatim>\<open>ValueError\<close> unless every series has as many elements as
  the index has timestamps. Series cells that are no flat numeric sequences are not
  followed.
\<close>

definition series_columns :: "cell list \<Rightarrow> nat \<Rightarrow> error + number list list" where
  "series_columns values_series n =
     (if \<not> list_all (\<lambda>c. case c of Seq xs \<Rightarrow> True | _ \<Rightarrow> False) values_series
      then Inl Unmodelled
      else if list_all (\<lambda>c. case c of Seq xs \<Rightarrow> length xs = n | _ \<Rightarrow> False) values_series
      then Inr (map (\<lambda>c. case c of Seq xs \<Rightarrow> xs | _ \<Rightarrow> []) values_series)
      else Inl ValueError)"

text \<open>
  \<^verbatim>\<open>pd.date_range\<close> is the parameter \<open>date_range\<close>: from start, stop and frequency it builds
  the timestamps of a \<^verbatim>\<open>DatetimeIndex\<close> and the frequency label that index carries, or raises
  (\<open>None\<close>).
\<close>

definition unstack_timeseries ::
  "(cell \<Rightarrow> cell \<Rightarrow> cell \<Rightarrow> (int list \<times> string) option) \<Rightarrow> dataframe \<Rightarrow>
   error + (notice list \<times> wide)" where
  "unstack_timeseries date_range df =
     (case check_consistency_timeindex df ''timeindex_resolution'' of
        Inl e \<Rightarrow> Inl e
      | Inr frequency \<Rightarrow>
     (case check_consistency_timeindex df ''timeindex_start'' of
        Inl e \<Rightarrow> Inl e
      | Inr timeindex_start \<Rightarrow>
     (case check_consistency_timeindex df ''timeindex_stop'' of
        Inl e \<Rightarrow> Inl e
      | Inr timeindex_stop \<Rightarrow>
          (let msgs = map ColumnLost
                        (filter (\<lambda>col. col \<in> set (columns df)) [''source'', ''comment''])
           in if ''series'' \<notin> set (columns df) then Inl (KeyError ''series'')
              else if ''var_name'' \<notin> set (columns df) then Inl (KeyError ''var_name'')
              else (case date_range timeindex_start timeindex_stop frequency of
                      None \<Rightarrow> Inl PandasError
                    | Some (stamps, label) \<Rightarrow>
                        (case series_columns (map (\<lambda>r. r ''series'') (rows df))
                                (length stamps) of
                           Inl e \<Rightarrow> Inl e
                         | Inr values \<Rightarrow>
                             Inr (msgs,
                                  \<lparr>timeindex = DatetimeIndex stamps (Some label),
                                   data = zip (map (\<lambda>r. r ''var_name'') (rows df))
                                            values\<rparr>)))))))"

text \<open>Stand-ins for the three pandas functions on timestamps that count hours. The range
  has one timestamp per hour. The inference knows the hourly frequency, forwards and
  backwards, and, as pandas does, refuses fewer than three timestamps. \<^verbatim>\<open>asfreq\<close> builds the
  range from the smallest to the largest timestamp in steps of the frequency: for an
  ascending hourly index that is the index itself with the label put on; for a descending
  one, whose step is negative, the range and with it the table is empty.\<close>

definition hourly_date_range :: "cell \<Rightarrow> cell \<Rightarrow> cell \<Rightarrow> (int list \<times> string) option" where
  "hourly_date_range start stop freq =
     (case (start, stop, freq) of
        (Stamp a, Stamp b, Str f) \<Rightarrow> Some (map (\<lambda>k. a + int k) [0..<nat (b - a + 1)], f)
      | _ \<Rightarrow> None)"

definition hourly_infer_freq :: "int list \<Rightarrow> string option option" where
  "hourly_infer_freq stamps =
     (if length stamps < 3 then None
      else if list_all (\<lambda>(a, b). b - a = 1) (zip stamps (tl stamps)) then Some (Some ''H'')
      else if list_all (\<lambda>(a, b). b - a = - 1) (zip stamps (tl stamps)) then Some (Some ''-1H'')
      else Some None)"

definition hourly_asfreq :: "string \<Rightarrow> wide \<Rightarrow> wide option" where
  "hourly_asfreq freq df =
     (case timeindex df of
        OtherIndex labels \<Rightarrow> None
      | DatetimeIndex stamps freqstr \<Rightarrow>
          if freq = ''H''
          then Some \<lparr>timeindex = DatetimeIndex stamps (Some freq), data = data df\<rparr>
          else Some \<lparr>timeindex = DatetimeIndex [] (Some freq),
                     data = map (\<lambda>c. (fst c, [])) (data df)\<rparr>)"

subsection \<open>Loading a stacked time series\<close>

text \<open>
  \<^verbatim>\<open>load_timeseries\<close> reads a file. The embedding starts where \<^verbatim>\<open>pd.read_csv(path)\<close> has
  returned a stacked table (the \<^verbatim>\<open>else\<close> branch of \<^verbatim>\<open>if not stacked\<close>) and ends with the
  \<^verbatim>\<open>return\<close>. The cells arrive parsed: \<^verbatim>\<open>pd.to_datetime\<close> and \<^verbatim>\<open>ast.literal_eval\<close>, which turn
  the text of a cell into a timestamp and into a sequence, are not followed. The branch that
  stacks a wide file is not part of the embedding.

  \<^verbatim>\<open>df[c] = values\<close> sets the column \<open>c\<close>, appending its label when it is new.
\<close>

definition add_column :: "string \<Rightarrow> cell list \<Rightarrow> dataframe \<Rightarrow> dataframe" where
  "add_column c vals df =
     \<lparr>columns = (if c \<in> set (columns df) then columns df else columns df @ [c]),
      rows = map (\<lambda>(r, v). r(c := v)) (zip (rows df) vals)\<rparr>"

text \<open>The body of the loop that derives the region of a row. On a \<^verbatim>\<open>var_name\<close> that is a
  sequence both membership tests are false and the \<^verbatim>\<open>else\<close> branch raises; on \<^verbatim>\<open>None\<close>, a
  number (NaN is one) or a timestamp the test itself raises \<^verbatim>\<open>TypeError\<close>.\<close>

definition region_from_var_name :: "cell \<Rightarrow> error + cell" where
  "region_from_var_name v =
     (case v of
        Str var_name \<Rightarrow>
          if str_in ''BE'' var_name \<and> str_in ''BB'' var_name then Inr (Str ''BE_BB'')
          else if str_in ''BE'' var_name \<and> \<not> str_in ''BB'' var_name then Inr (Str ''BE'')
          else if \<not> str_in ''BE'' var_name \<and> str_in ''BB'' var_name then Inr (Str ''BB'')
          else Inl MissingRegion
      | Seq xs \<Rightarrow> Inl MissingRegion
      | Table xss \<Rightarrow> Inl MissingRegion
      | _ \<Rightarrow> Inl TypeError)"

fun extract_regions :: "row list \<Rightarrow> cell list \<Rightarrow> error + cell list" where
  "extract_regions [] region = Inr region"
| "extract_regions (r # rs) region =
     (case region_from_var_name (r ''var_name'') of
        Inl e \<Rightarrow> Inl e
      | Inr code \<Rightarrow> extract_regions rs (region @ [code]))"

text \<open>\<^verbatim>\<open>if optional_header[num_col] not in df.columns: df[...] = [np.nan] * len(df["series"])\<close>\<close>

definition fill_optional :: "string \<Rightarrow> dataframe \<Rightarrow> dataframe" where
  "fill_optional c df =
     (if c \<notin> set (columns df) then add_column c (replicate (length (rows df)) (Num NaNv)) df
      else df)"

text \<open>\<^verbatim>\<open>df[header]\<close>: the columns of \<open>header\<close> in that order, or \<^verbatim>\<open>KeyError\<close> when the table
  lacks one of them.\<close>

definition select_columns :: "string list \<Rightarrow> dataframe \<Rightarrow> error + dataframe" where
  "select_columns header df =
     (case filter (\<lambda>c. c \<notin> set (columns df)) header of
        [] \<Rightarrow> Inr \<lparr>columns = header,
                   rows = map (\<lambda>r c. if c \<in> set header then r c else PyNone) (rows df)\<rparr>
      | c # _ \<Rightarrow> Inl (KeyError c))"

definition load_timeseries_stacked :: "dataframe \<Rightarrow> error + dataframe" where
  "load_timeseries_stacked df =
     (let header = header_timeseries;
          optional_header = optional_header_timeseries;
          required_header = required_header_timeseries;
          df_header = columns df;
          missing_required =
            filter (\<lambda>required. required \<notin> set df_header \<and> \<not> str_in ''region'' required)
              required_header
      in if missing_required \<noteq> [] then Inl (MissingRequiredColumns missing_required)
         else (let required_header_without_reg = remove1 ''region'' required_header
               in if (columns df = required_header \<or> columns df = required_header_without_reg)
                     \<and> columns df \<noteq> header
                  then (let df1 = (if hd optional_header \<notin> set (columns df)
                                   then add_column (hd optional_header)
                                          (map (\<lambda>i. Num (Fin (real i))) [0..<length (rows df)]) df
                                   else df)
                        in case (if hd required_header \<notin> set (columns df1)
                                 then (case extract_regions (rows df1) [] of
                                         Inl e \<Rightarrow> Inl e
                                       | Inr region \<Rightarrow>
                                           Inr (add_column (hd required_header) region df1))
                                 else Inr df1) of
                             Inl e \<Rightarrow> Inl e
                           | Inr df2 \<Rightarrow>
                               select_columns header
                                 (fold fill_optional (tl optional_header) df2))
                  else select_columns header df))"

subsection \<open>Vocabulary of the aggregation claims\<close>

text \<open>A \<^verbatim>\<open>var_name\<close> has a known category when one of the five words occurs in it.\<close>

definition known_category :: "string \<Rightarrow> bool" where
  "known_category var_name \<longleftrightarrow>
     str_in ''capacity'' var_name \<or> str_in ''flow'' var_name \<or> str_in ''costs'' var_name \<or>
     str_in ''invest'' var_name \<or> str_in ''losses'' var_name"

text \<open>A row whose \<^verbatim>\<open>var_name\<close> is a string without any of the five words.\<close>

definition unknown_variable :: "row \<Rightarrow> bool" where
  "unknown_variable r \<longleftrightarrow>
     (case r ''var_name'' of Str var_name \<Rightarrow> \<not> known_category var_name | _ \<Rightarrow> False)"

text \<open>
  A row that the row loop can read: its \<^verbatim>\<open>var_name\<close> and \<^verbatim>\<open>carrier\<close> are strings, its
  \<^verbatim>\<open>var_value\<close> is a number, and if it is treated as a flow its \<^verbatim>\<open>var_name\<close> has a third
  segment between underscores.
\<close>

definition readable_scalar :: "row \<Rightarrow> bool" where
  "readable_scalar r \<longleftrightarrow>
     (case r ''var_name'' of
        Str var_name \<Rightarrow>
          (\<exists>x. r ''var_value'' = Num x) \<and> (\<exists>c. r ''carrier'' = Str c) \<and>
          (\<not> str_in ''capacity'' var_name \<and> str_in ''flow'' var_name \<longrightarrow>
             2 < length (split_on CHR ''_'' var_name))
      | _ \<Rightarrow> False)"

text \<open>The three keys scalars may be aggregated by.\<close>

definition aggregation_key :: "string \<Rightarrow> bool" where
  "aggregation_key key \<longleftrightarrow> key \<in> set [''region'', ''carrier'', ''tech'']"

text \<open>The rows of one group, and the order in which the nested loops of the scalar
  aggregation reach the rows of the table: scenario by scenario, within a scenario key item
  by key item, within a group in row order. A row whose scenario or key cell is NaN is in
  no group and is not reached.\<close>

definition group_rows :: "dataframe \<Rightarrow> string \<Rightarrow> cell \<times> cell \<Rightarrow> row list" where
  "group_rows df key g =
     filter (\<lambda>r. py_eq (r ''scenario'') (fst g) \<and> py_eq (r key) (snd g)) (rows df)"





subsection \<open>Vocabulary of the classification claim\<close>

text \<open>The column labels of a header that are optional in neither schema, in their order; the
  class of a table, decided by comparing that list with the two required headers; and the
  keys each class may be filtered and aggregated by.\<close>

datatype table_class = ScalarTable | TimeseriesTable

definition required_columns :: "string list \<Rightarrow> string list" where
  "required_columns df_header = filter (\<lambda>c. \<not> is_optional c) df_header"

definition table_class :: "dataframe \<Rightarrow> table_class option" where
  "table_class df =
     (if required_columns (columns df) =
           [''scenario'', ''name'', ''var_name'', ''carrier'', ''region'', ''tech'', ''type'',
            ''var_value'']
      then Some ScalarTable
      else if required_columns (columns df) =
           [''region'', ''var_name'', ''timeindex_start'', ''timeindex_stop'',
            ''timeindex_resolution'', ''series'']
      then Some TimeseriesTable
      else None)"

definition filter_options :: "table_class \<Rightarrow> string list" where
  "filter_options c =
     (case c of
        ScalarTable \<Rightarrow> [''scenario'', ''region'', ''carrier'', ''tech'', ''type'', ''var_name'']
      | TimeseriesTable \<Rightarrow> [''region'', ''var_name''])"

definition agg_options :: "table_class \<Rightarrow> string list" where
  "agg_options c =
     (case c of
        ScalarTable \<Rightarrow> [''region'', ''carrier'', ''tech'']
      | TimeseriesTable \<Rightarrow> [''region''])"

text \<open>The rows that the aggregation of a table of class \<open>c\<close> appends: for scalars the loops
  over scenarios and key items, for time series the loop over key items.\<close>

definition aggregation_of ::
  "table_class \<Rightarrow> arithmetic \<Rightarrow> dataframe \<Rightarrow> string \<Rightarrow> error + row list" where
  "aggregation_of c A df key =
     (case c of
        ScalarTable \<Rightarrow>
          aggregate_scalars A df key
            (List.product (dict_fromkeys (map (\<lambda>r. r ''scenario'') (rows df)))
                          (dict_fromkeys (map (\<lambda>r. r key) (rows df)))) []
      | TimeseriesTable \<Rightarrow>
          aggregate_timeseries A df key (dict_fromkeys (map (\<lambda>r. r key) (rows df))) [])"

subsection \<open>Vocabulary of the stacking claims\<close>

text \<open>The three time fields in the order in which \<^verbatim>\<open>unstack_timeseries\<close> checks them, and
  the name each has in the messages of \<^verbatim>\<open>check_consistency_timeindex\<close>.\<close>

definition time_fields :: "string list" where
  "time_fields = [''timeindex_resolution'', ''timeindex_start'', ''timeindex_stop'']"

definition time_field_name :: "string \<Rightarrow> string" where
  "time_field_name index =
     (if index = ''timeindex_start'' then ''start date''
      else if index = ''timeindex_stop'' then ''end date''
      else ''frequency'')"

text \<open>The table that \<^verbatim>\<open>stack_timeseries\<close> reads index, frequency label and values from,
  once the frequency \<open>f\<close> is inferred: the result of \<open>asfreq\<close> when the index of the table
  has no frequency label, the table itself when it has one.\<close>

definition coerced :: "(string \<Rightarrow> wide \<Rightarrow> wide option) \<Rightarrow> string \<Rightarrow> wide \<Rightarrow> wide option" where
  "coerced asfreq f df =
     (case timeindex df of
        DatetimeIndex stamps None \<Rightarrow> asfreq f df
      | _ \<Rightarrow> Some df)"

text \<open>A table that has the five columns \<^verbatim>\<open>unstack_timeseries\<close> reads.\<close>

definition stackable :: "dataframe \<Rightarrow> bool" where
  "stackable df \<longleftrightarrow>
     set [''var_name'', ''timeindex_start'', ''timeindex_stop'', ''timeindex_resolution'',
          ''series''] \<subseteq> set (columns df)"

subsection \<open>Vocabulary of the region claim\<close>

text \<open>The region code that the claim assigns to a \<^verbatim>\<open>var_name\<close>: \<open>BE_BB\<close> when both tokens
  occur in it, the token that occurs when only one does, none otherwise; the region cell it
  gives a row; and the header of a stacked table that has the required columns but no
  region.\<close>

definition region_code :: "string \<Rightarrow> string option" where
  "region_code var_name =
     (if str_in ''BE'' var_name \<and> str_in ''BB'' var_name then Some ''BE_BB''
      else if str_in ''BE'' var_name then Some ''BE''
      else if str_in ''BB'' var_name then Some ''BB''
      else None)"

definition derived_region :: "row \<Rightarrow> cell" where
  "derived_region r =
     (case r ''var_name'' of
        Str var_name \<Rightarrow> (case region_code var_name of Some code \<Rightarrow> Str code | None \<Rightarrow> PyNone)
      | _ \<Rightarrow> PyNone)"

definition required_without_region :: "string list" where
  "required_without_region =
     [''var_name'', ''timeindex_start'', ''timeindex_stop'', ''timeindex_resolution'',
      ''series'']"

subsection \<open>Example tables\<close>

text \<open>The arithmetic of numbers on which neither an int64 sum wraps around nor a float64
  sum is rounded: finite numbers are added and subtracted as reals, NaN absorbs, and the
  infinities follow IEEE 754.\<close>

fun exact_plus :: "number \<Rightarrow> number \<Rightarrow> number" where
  "exact_plus (Fin a) (Fin b) = Fin (a + b)"
| "exact_plus NaNv y = NaNv"
| "exact_plus x NaNv = NaNv"
| "exact_plus PosInf NegInf = NaNv"
| "exact_plus NegInf PosInf = NaNv"
| "exact_plus PosInf y = PosInf"
| "exact_plus x PosInf = PosInf"
| "exact_plus NegInf y = NegInf"
| "exact_plus x NegInf = NegInf"

fun negate :: "number \<Rightarrow> number" where
  "negate (Fin a) = Fin (- a)"
| "negate PosInf = NegInf"
| "negate NegInf = PosInf"
| "negate NaNv = NaNv"

definition exact :: arithmetic where
  "exact = \<lparr>np_plus = exact_plus, np_minus = (\<lambda>x y. exact_plus x (negate y))\<rparr>"

text \<open>A scalar record with its eight required fields; the optional fields are missing.\<close>

definition scalar_record ::
  "string \<Rightarrow> string \<Rightarrow> string \<Rightarrow> string \<Rightarrow> string \<Rightarrow> string \<Rightarrow> string \<Rightarrow> real \<Rightarrow> row" where
  "scalar_record scenario name var_name carrier region tech type var_value =
     (\<lambda>_. PyNone)
       (''scenario'' := Str scenario,
        ''name'' := Str name,
        ''var_name'' := Str var_name,
        ''carrier'' := Str carrier,
        ''region'' := Str region,
        ''tech'' := Str tech,
        ''type'' := Str type,
        ''var_value'' := Num (Fin var_value))"

definition wind_in :: row where
  "wind_in = scalar_record ''base'' ''wind-onshore'' ''flow_in_electricity'' ''wind'' ''BB''
     ''onshore'' ''volatile'' 5"

definition wind_out :: row where
  "wind_out = scalar_record ''base'' ''wind-storage'' ''flow_out_electricity'' ''wind'' ''BE''
     ''battery'' ''storage'' 3"

definition solar_capacity :: row where
  "solar_capacity = scalar_record ''base'' ''solar-pv'' ''capacity'' ''solar'' ''BB''
     ''pv'' ''volatile'' 7"

definition example_scalars :: dataframe where
  "example_scalars = \<lparr>columns = header_scalars, rows = [wind_in, wind_out, solar_capacity]\<rparr>"

text \<open>The required scalar columns with the first two exchanged.\<close>

definition swapped_scalar_columns :: "string list" where
  "swapped_scalar_columns =
     [''name'', ''scenario'', ''var_name'', ''carrier'', ''region'', ''tech'', ''type'',
      ''var_value'']"

text \<open>Two rows with unknown variables, a flow without a third segment before a row
  with an unknown variable, and a row with an unknown variable whose region is NaN.\<close>

definition foobar_in :: row where
  "foobar_in = scalar_record ''base'' ''a'' ''foobar_in'' ''wind'' ''BB'' ''onshore''
     ''volatile'' 1"

definition mystery_out :: row where
  "mystery_out = scalar_record ''base'' ''b'' ''mystery_out'' ''wind'' ''BB'' ''onshore''
     ''volatile'' 2"

definition short_flow :: row where
  "short_flow = scalar_record ''base'' ''c'' ''flow_in'' ''wind'' ''BB'' ''onshore''
     ''volatile'' 3"

definition foobar_nowhere :: row where
  "foobar_nowhere = foobar_in(''region'' := Num NaNv)"




text \<open>One investment into the outgoing side of a storage.\<close>

definition invest_out_table :: dataframe where
  "invest_out_table =
     \<lparr>columns = header_scalars,
      rows = [scalar_record ''base'' ''battery'' ''invest_out_electricity'' ''electricity''
                ''BB'' ''storage'' ''storage'' 4]\<rparr>"

text \<open>An incoming and an outgoing flow of electricity of the same carrier.\<close>

definition wind_flows :: dataframe where
  "wind_flows = \<lparr>columns = header_scalars, rows = [wind_in, wind_out]\<rparr>"

text \<open>A stacked time series record with its six required fields.\<close>

definition timeseries_record ::
  "string \<Rightarrow> string \<Rightarrow> cell \<Rightarrow> cell \<Rightarrow> cell \<Rightarrow> real list \<Rightarrow> row" where
  "timeseries_record region var_name timeindex_start timeindex_stop timeindex_resolution series =
     (\<lambda>_. PyNone)
       (''region'' := Str region,
        ''var_name'' := Str var_name,
        ''timeindex_start'' := timeindex_start,
        ''timeindex_stop'' := timeindex_stop,
        ''timeindex_resolution'' := timeindex_resolution,
        ''series'' := Seq (map Fin series))"

definition bb_wind :: row where
  "bb_wind = timeseries_record ''BB'' ''wind-profile'' (Stamp 0) (Stamp 2) (Str ''H'') [1, 2, 3]"

definition be_wind_later :: row where
  "be_wind_later =
     timeseries_record ''BE'' ''wind-profile'' (Stamp 10) (Stamp 12) (Str ''D'') [4, 5, 6]"

definition bb_solar :: row where
  "bb_solar =
     timeseries_record ''BB'' ''solar-profile'' (Stamp 0) (Stamp 2) (Str ''H'') [10, 20, 30]"

definition example_timeseries :: dataframe where
  "example_timeseries =
     \<lparr>columns = header_timeseries, rows = [bb_wind, be_wind_later, bb_solar]\<rparr>"

text \<open>Two regions with a profile of the same name, two profiles of different names, a
  table without start dates, a table with a profile whose region is NaN, a wide table, a
  wide table whose timestamps are not in ascending order, and one whose timestamps
  descend hour by hour.\<close>

definition be_wind :: row where
  "be_wind = timeseries_record ''BE'' ''wind-profile'' (Stamp 0) (Stamp 2) (Str ''H'') [4, 5, 6]"

definition same_name_table :: dataframe where
  "same_name_table = \<lparr>columns = header_timeseries, rows = [bb_wind, be_wind]\<rparr>"

definition example_profiles :: dataframe where
  "example_profiles = \<lparr>columns = header_timeseries, rows = [bb_wind, bb_solar]\<rparr>"

definition missing_start_table :: dataframe where
  "missing_start_table =
     \<lparr>columns = header_timeseries,
      rows = [timeseries_record ''BB'' ''wind-profile'' PyNone (Stamp 2) (Str ''H'') [1, 2, 3],
              timeseries_record ''BB'' ''solar-profile'' PyNone (Stamp 2) (Str ''H'') [4, 5, 6]]\<rparr>"



definition example_wide :: wide where
  "example_wide =
     \<lparr>timeindex = DatetimeIndex [0, 1, 2] None,
      data = [(Str ''wind-profile'', [Fin 1, Fin 2, Fin 3]),
              (Str ''solar-profile'', [Fin 10, Fin 20, Fin 30])]\<rparr>"

definition unsorted_wide :: wide where
  "unsorted_wide =
     \<lparr>timeindex = DatetimeIndex [2, 0, 1] None,
      data = [(Str ''wind-profile'', [Fin 3, Fin 1, Fin 2])]\<rparr>"

definition descending_wide :: wide where
  "descending_wide =
     \<lparr>timeindex = DatetimeIndex [2, 1, 0] None,
      data = [(Str ''wind-profile'', [Fin 3, Fin 2, Fin 1])]\<rparr>"

text \<open>Stacked rows without a region, and tables of them: with the required columns only,
  with a row that names no region, and with a unit column besides the required ones.\<close>

definition regionless_record :: "string \<Rightarrow> real list \<Rightarrow> row" where
  "regionless_record var_name series =
     (\<lambda>_. PyNone)
       (''var_name'' := Str var_name,
        ''timeindex_start'' := Stamp 0,
        ''timeindex_stop'' := Stamp 2,
        ''timeindex_resolution'' := Str ''H'',
        ''series'' := Seq (map Fin series))"

definition bb_demand :: row where
  "bb_demand = regionless_record ''BB-electricity-something'' [1, 2, 3]"

definition be_bb_link :: row where
  "be_bb_link = regionless_record ''BE-BB-electricity-link'' [4, 5, 6]"

definition be_heat :: row where
  "be_heat = regionless_record ''BE-heat-demand'' [7, 8, 9]"

definition hh_demand :: row where
  "hh_demand = regionless_record ''HH-electricity-demand'' [1, 1, 1]"

definition regionless_table :: dataframe where
  "regionless_table =
     \<lparr>columns = required_without_region, rows = [bb_demand, be_bb_link, be_heat]\<rparr>"

definition nowhere_table :: dataframe where
  "nowhere_table = \<lparr>columns = required_without_region, rows = [bb_demand, hh_demand]\<rparr>"

definition regionless_with_unit :: dataframe where
  "regionless_with_unit =
     \<lparr>columns = required_without_region @ [''var_unit''], rows = [bb_demand]\<rparr>"

section \<open>Properties\<close>

subsection \<open>Schema registry and classification\<close>

lemma get_optional_required_header_scalars:
  "get_optional_required_header ''scalars'' =
     Inr (header_scalars, optional_header_scalars, required_header_scalars)"
  by (simp add: get_optional_required_header_def required_header_scalars_def)

lemma get_optional_required_header_timeseries:
  "get_optional_required_header ''timeseries'' =
     Inr (header_timeseries, optional_header_timeseries, required_header_timeseries)"
  by (simp add: get_optional_required_header_def required_header_timeseries_def)

lemma required_header_scalars_eq:
  "required_header_scalars =
     [''scenario'', ''name'', ''var_name'', ''carrier'', ''region'', ''tech'', ''type'',
      ''var_value'']"
  by (simp add: required_header_scalars_def optional_header_scalars_def header_scalars_def)

lemma required_header_timeseries_eq:
  "required_header_timeseries =
     [''region'', ''var_name'', ''timeindex_start'', ''timeindex_stop'',
      ''timeindex_resolution'', ''series'']"
  by (simp add: required_header_timeseries_def optional_header_timeseries_def
      header_timeseries_def)

lemma drop_optional_step:
  assumes "\<forall>y\<in>set p. \<not> is_optional y"
  shows "drop_optional x (p @ x # xs) = (if is_optional x then p @ xs else p @ x # xs)"
proof (cases "is_optional x")
  case True
  from assms True have "x \<notin> set p" by auto
  then have "remove1 x (p @ x # xs) = p @ xs" by (simp add: remove1_append)
  with True show ?thesis by (auto simp: drop_optional_def is_optional_def)
next
  case False
  then show ?thesis by (auto simp: drop_optional_def is_optional_def)
qed

lemma fold_drop_optional:
  "\<forall>y\<in>set p. \<not> is_optional y \<Longrightarrow>
   fold drop_optional xs (p @ xs) = p @ filter (\<lambda>c. \<not> is_optional c) xs"
proof (induction xs arbitrary: p)
  case Nil
  then show ?case by simp
next
  case (Cons x xs)
  show ?case
  proof (cases "is_optional x")
    case True
    with Cons.prems have "drop_optional x (p @ x # xs) = p @ xs"
      by (simp add: drop_optional_step)
    with Cons.IH [OF Cons.prems] True show ?thesis by simp
  next
    case False
    with Cons.prems have step: "drop_optional x (p @ x # xs) = (p @ [x]) @ xs"
      by (simp add: drop_optional_step)
    from Cons.prems False have "\<forall>y\<in>set (p @ [x]). \<not> is_optional y" by simp
    from Cons.IH [OF this] step False show ?thesis by simp
  qed
qed

lemma df_header_required_filter:
  "df_header_required cols = filter (\<lambda>c. \<not> is_optional c) cols"
  using fold_drop_optional [of "[]" cols] by (simp add: df_header_required_def)

lemmas schema_simps =
  header_scalars_def header_timeseries_def optional_header_scalars_def
  optional_header_timeseries_def required_header_scalars_eq required_header_timeseries_eq
  df_header_required_filter is_optional_def


lemma required_headers_differ: "required_header_scalars \<noteq> required_header_timeseries"
  by (simp add: required_header_scalars_eq required_header_timeseries_eq)

subsection \<open>No loop of the aggregation reports an unrecognised schema\<close>

lemma add_value_schema: "add_value A k v d \<noteq> Inl (UnrecognizedSchema a b)"
  by (auto simp: add_value_def split: option.splits cell.splits)

lemma signed_value_schema:
  "signed_value A vn k v d \<noteq> Inl (UnrecognizedSchema a b)"
  by (auto simp: signed_value_def add_value_def sub_value_def split: option.splits cell.splits)

lemma aggregate_row_schema: "aggregate_row A key r d \<noteq> Inl (UnrecognizedSchema a b)"
  by (auto simp: aggregate_row_def Let_def signed_value_schema add_value_schema
      split: cell.splits)

lemma aggregate_rows_schema:
  "aggregate_rows A key scenario key_item rs d \<noteq> Inl (UnrecognizedSchema a b)"
  by (induction rs arbitrary: d) (auto simp: aggregate_row_schema split: sum.splits)

lemma new_scalar_rows_schema:
  "new_scalar_rows key scenario key_item items out \<noteq> Inl (UnrecognizedSchema a b)"
  by (induction items arbitrary: out)
    (auto simp: new_scalar_row_def split: sum.splits if_splits)

lemma aggregate_scalars_schema:
  "aggregate_scalars A df key groups out \<noteq> Inl (UnrecognizedSchema a b)"
  by (induction groups arbitrary: out)
    (auto simp: aggregate_rows_schema new_scalar_rows_schema split: sum.splits)

lemma sum_series_schema:
  "sum_series A df key key_item rs d \<noteq> Inl (UnrecognizedSchema a b)"
  by (induction rs arbitrary: d)
    (auto simp: np_add_def zeros_like_first_def
      split: sum.splits option.splits cell.splits list.splits if_splits)

lemma aggregate_timeseries_schema:
  "aggregate_timeseries A df key key_list out \<noteq> Inl (UnrecognizedSchema a b)"
  by (induction key_list arbitrary: out)
    (auto simp: sum_series_schema new_timeseries_row_def
      split: sum.splits option.splits list.splits)

lemma aggregation_of_schema:
  "aggregation_of c A df key \<noteq> Inl (UnrecognizedSchema a b)"
  by (cases c)
    (simp_all add: aggregation_of_def aggregate_scalars_schema aggregate_timeseries_schema)

lemma table_class_scalars:
  "table_class df = Some ScalarTable \<longleftrightarrow>
     df_header_required (columns df) = required_header_scalars"
  by (simp add: table_class_def required_columns_def df_header_required_filter
      required_header_scalars_eq required_header_timeseries_eq)

lemma table_class_timeseries:
  "table_class df = Some TimeseriesTable \<longleftrightarrow>
     df_header_required (columns df) = required_header_timeseries"
  by (auto simp: table_class_def required_columns_def df_header_required_filter
      required_header_scalars_eq required_header_timeseries_eq)

lemma table_class_none:
  "table_class df = None \<longleftrightarrow>
     df_header_required (columns df) \<noteq> required_header_scalars \<and>
     df_header_required (columns df) \<noteq> required_header_timeseries"
  by (simp add: table_class_def required_columns_def df_header_required_filter
      required_header_scalars_eq required_header_timeseries_eq)

lemma df_filtered_of_class:
  assumes "table_class df = Some c"
  shows "df_filtered df key vs =
           (if key \<notin> set (filter_options c) then Inl (InvalidFilterKey key (filter_options c))
            else if key \<notin> set (columns df) then Inl (MissingColumn key)
            else if list_ex nan_like vs then Inl Unmodelled
            else (case filter_values df key vs ([], []) of
                    (msgs, out) \<Rightarrow> Inr (msgs, \<lparr>columns = columns df, rows = out\<rparr>)))"
proof (cases c)
  case ScalarTable
  with assms have "df_header_required (columns df) = required_header_scalars"
    by (simp add: table_class_scalars)
  with ScalarTable show ?thesis
    by (simp add: df_filtered_def Let_def filter_options_def)
next
  case TimeseriesTable
  with assms have "df_header_required (columns df) = required_header_timeseries"
    by (simp add: table_class_timeseries)
  with TimeseriesTable required_headers_differ show ?thesis
    by (simp add: df_filtered_def Let_def filter_options_def)
qed

lemma df_agg_of_class:
  assumes "table_class df = Some c"
  shows "df_agg A df key =
           (if key \<notin> set (agg_options c) then Inl (InvalidAggregationKey key (agg_options c))
            else if key \<notin> set (columns df) then Inl (MissingColumn key)
            else aggregation_of c A df key)"
proof (cases c)
  case ScalarTable
  with assms have "df_header_required (columns df) = required_header_scalars"
    by (simp add: table_class_scalars)
  with ScalarTable show ?thesis
    by (simp add: df_agg_def Let_def agg_options_def aggregation_of_def)
next
  case TimeseriesTable
  with assms have "df_header_required (columns df) = required_header_timeseries"
    by (simp add: table_class_timeseries)
  with TimeseriesTable required_headers_differ show ?thesis
    by (simp add: df_agg_def Let_def agg_options_def aggregation_of_def)
qed

lemma df_filtered_unrecognized:
  "table_class df = None \<Longrightarrow>
   df_filtered df key vs = Inl (UnrecognizedSchema header_timeseries header_scalars)"
  by (simp add: table_class_none df_filtered_def Let_def)

lemma df_agg_unrecognized:
  "table_class df = None \<Longrightarrow>
   df_agg A df key = Inl (UnrecognizedSchema header_timeseries header_scalars)"
  by (simp add: table_class_none df_agg_def Let_def)

text \<open>
  Claim C6, as amended. \<^verbatim>\<open>df_filtered\<close> and \<^verbatim>\<open>df_agg\<close> classify a table by the list of its
  column labels with the labels that are optional in either schema left out and the order
  of the remaining labels kept. When that list is the required scalars header the table is
  treated as scalars, when it is the required time series header as a time series: the
  class decides which keys are accepted, which options the error for another key names,
  and which aggregation runs. When the list is equal to neither, both functions fail with
  \<open>UnrecognizedSchema\<close>, naming the time series header and the scalars header, and they
  never do so for a table that has a class. The comparison is one of lists, so it depends
  on the order of the required columns.
\<close>

theorem classification_compares_ordered_headers:
  "(table_class df = None \<longrightarrow>
      df_filtered df key vs = Inl (UnrecognizedSchema header_timeseries header_scalars) \<and>
      df_agg A df key = Inl (UnrecognizedSchema header_timeseries header_scalars)) \<and>
   (\<forall>c. table_class df = Some c \<longrightarrow>
      df_filtered df key vs \<noteq> Inl (UnrecognizedSchema header_timeseries header_scalars) \<and>
      df_agg A df key \<noteq> Inl (UnrecognizedSchema header_timeseries header_scalars) \<and>
      df_filtered df key vs =
        (if key \<notin> set (filter_options c) then Inl (InvalidFilterKey key (filter_options c))
         else if key \<notin> set (columns df) then Inl (MissingColumn key)
         else if list_ex nan_like vs then Inl Unmodelled
         else (case filter_values df key vs ([], []) of
                 (msgs, out) \<Rightarrow> Inr (msgs, \<lparr>columns = columns df, rows = out\<rparr>))) \<and>
      df_agg A df key =
        (if key \<notin> set (agg_options c) then Inl (InvalidAggregationKey key (agg_options c))
         else if key \<notin> set (columns df) then Inl (MissingColumn key)
         else aggregation_of c A df key))"
proof (intro conjI impI allI)
  fix c
  assume c: "table_class df = Some c"
  show filtered: "df_filtered df key vs =
        (if key \<notin> set (filter_options c) then Inl (InvalidFilterKey key (filter_options c))
         else if key \<notin> set (columns df) then Inl (MissingColumn key)
         else if list_ex nan_like vs then Inl Unmodelled
         else (case filter_values df key vs ([], []) of
                 (msgs, out) \<Rightarrow> Inr (msgs, \<lparr>columns = columns df, rows = out\<rparr>)))"
    by (rule df_filtered_of_class [OF c])
  show agg: "df_agg A df key =
        (if key \<notin> set (agg_options c) then Inl (InvalidAggregationKey key (agg_options c))
         else if key \<notin> set (columns df) then Inl (MissingColumn key)
         else aggregation_of c A df key)"
    by (rule df_agg_of_class [OF c])
  show "df_filtered df key vs \<noteq> Inl (UnrecognizedSchema header_timeseries header_scalars)"
    unfolding filtered by (simp split: prod.splits)
  show "df_agg A df key \<noteq> Inl (UnrecognizedSchema header_timeseries header_scalars)"
    unfolding agg by (simp add: aggregation_of_schema)
qed (simp_all add: df_filtered_unrecognized df_agg_unrecognized)

theorem classification_compares_ordered_headers_witness:
  "table_class example_scalars = Some ScalarTable \<and>
   df_filtered example_scalars ''type'' [] =
     Inr ([], \<lparr>columns = header_scalars, rows = []\<rparr>) \<and>
   df_agg exact example_scalars ''type'' =
     Inl (InvalidAggregationKey ''type'' [''region'', ''carrier'', ''tech'']) \<and>
   table_class example_timeseries = Some TimeseriesTable \<and>
   df_filtered example_timeseries ''carrier'' [] =
     Inl (InvalidFilterKey ''carrier'' [''region'', ''var_name'']) \<and>
   df_agg exact example_timeseries ''carrier'' =
     Inl (InvalidAggregationKey ''carrier'' [''region'']) \<and>
   table_class \<lparr>columns = swapped_scalar_columns, rows = []\<rparr> = None \<and>
   df_agg exact \<lparr>columns = swapped_scalar_columns, rows = []\<rparr> ''region'' =
     Inl (UnrecognizedSchema header_timeseries header_scalars)"
proof -
  have scalars: "table_class example_scalars = Some ScalarTable"
    by (simp add: table_class_def required_columns_def example_scalars_def
        header_scalars_def is_optional_def optional_header_scalars_def
        optional_header_timeseries_def)
  have timeseries: "table_class example_timeseries = Some TimeseriesTable"
    by (simp add: table_class_def required_columns_def example_timeseries_def
        header_timeseries_def is_optional_def optional_header_scalars_def
        optional_header_timeseries_def)
  have swapped: "table_class \<lparr>columns = swapped_scalar_columns, rows = []\<rparr> = None"
    by (simp add: table_class_def required_columns_def swapped_scalar_columns_def
        is_optional_def optional_header_scalars_def optional_header_timeseries_def)
  from classification_compares_ordered_headers
         [of example_scalars "''type''" "[]" exact, THEN conjunct2] scalars
  have "df_filtered example_scalars ''type'' [] =
          Inr ([], \<lparr>columns = header_scalars, rows = []\<rparr>)"
    "df_agg exact example_scalars ''type'' =
       Inl (InvalidAggregationKey ''type'' [''region'', ''carrier'', ''tech''])"
    by (simp_all add: filter_options_def agg_options_def example_scalars_def
        header_scalars_def)
  moreover from classification_compares_ordered_headers
         [of example_timeseries "''carrier''" "[]" exact, THEN conjunct2] timeseries
  have "df_filtered example_timeseries ''carrier'' [] =
          Inl (InvalidFilterKey ''carrier'' [''region'', ''var_name''])"
    "df_agg exact example_timeseries ''carrier'' =
       Inl (InvalidAggregationKey ''carrier'' [''region''])"
    by (simp_all add: filter_options_def agg_options_def)
  moreover from classification_compares_ordered_headers
         [of "\<lparr>columns = swapped_scalar_columns, rows = []\<rparr>" "''region''" "[]" exact,
          THEN conjunct1] swapped
  have "df_agg exact \<lparr>columns = swapped_scalar_columns, rows = []\<rparr> ''region'' =
          Inl (UnrecognizedSchema header_timeseries header_scalars)"
    by simp
  ultimately show ?thesis using scalars timeseries swapped by simp
qed

text \<open>
  The claim as stated lets the comparison depend only on which required columns are
  present. A table with exactly the required scalar columns, the first two exchanged, is
  rejected by both functions, while the same columns in canonical order are accepted.
\<close>

theorem classification_order_counterexample:
  "set swapped_scalar_columns = set required_header_scalars \<and>
   df_filtered \<lparr>columns = swapped_scalar_columns, rows = []\<rparr> ''region'' [] =
     Inl (UnrecognizedSchema header_timeseries header_scalars) \<and>
   df_agg exact \<lparr>columns = swapped_scalar_columns, rows = []\<rparr> ''region'' =
     Inl (UnrecognizedSchema header_timeseries header_scalars) \<and>
   df_filtered \<lparr>columns = required_header_scalars, rows = []\<rparr> ''region'' [] =
     Inr ([], \<lparr>columns = required_header_scalars, rows = []\<rparr>) \<and>
   df_agg exact \<lparr>columns = required_header_scalars, rows = []\<rparr> ''region'' = Inr []"
proof -
  have "set swapped_scalar_columns = set required_header_scalars"
    by (auto simp: swapped_scalar_columns_def required_header_scalars_eq)
  moreover have "df_header_required swapped_scalar_columns = swapped_scalar_columns"
    by (simp add: swapped_scalar_columns_def schema_simps)
  moreover have "df_header_required required_header_scalars = required_header_scalars"
    by (simp add: schema_simps)
  moreover have "swapped_scalar_columns \<noteq> required_header_scalars"
    "swapped_scalar_columns \<noteq> required_header_timeseries"
    by (simp_all add: swapped_scalar_columns_def schema_simps)
  moreover have "''region'' \<in> set required_header_scalars"
    by (simp add: required_header_scalars_eq)
  ultimately show ?thesis
    by (simp add: df_filtered_def df_agg_def Let_def dict_fromkeys_def)
qed

subsection \<open>Filtering\<close>








subsection \<open>Aggregation of scalars\<close>

lemma new_scalar_row_type:
  "new_scalar_row key scenario key_item item = Inr r \<Longrightarrow> r ''type'' = Str ''All''"
  by (auto simp: new_scalar_row_def split: if_splits)

lemma new_scalar_rows_type:
  "new_scalar_rows key scenario key_item items out = Inr out' \<Longrightarrow>
   \<forall>r\<in>set out. r ''type'' = Str ''All'' \<Longrightarrow> \<forall>r\<in>set out'. r ''type'' = Str ''All''"
proof (induction items arbitrary: out)
  case Nil
  then show ?case by simp
next
  case (Cons item items)
  from Cons.prems(1) obtain r where
    r: "new_scalar_row key scenario key_item item = Inr r" and
    rest: "new_scalar_rows key scenario key_item items (out @ [r]) = Inr out'"
    by (auto split: sum.splits)
  from r have "r ''type'' = Str ''All''" by (rule new_scalar_row_type)
  with Cons.prems(2) have "\<forall>x\<in>set (out @ [r]). x ''type'' = Str ''All''" by simp
  with rest show ?case by (rule Cons.IH)
qed

lemma aggregate_scalars_type:
  "aggregate_scalars A df key groups out = Inr out' \<Longrightarrow>
   \<forall>r\<in>set out. r ''type'' = Str ''All'' \<Longrightarrow> \<forall>r\<in>set out'. r ''type'' = Str ''All''"
proof (induction groups arbitrary: out)
  case Nil
  then show ?case by simp
next
  case (Cons g groups)
  obtain scenario key_item where g: "g = (scenario, key_item)" by (cases g)
  from Cons.prems(1) g obtain d mid where
    "new_scalar_rows key scenario key_item d out = Inr mid" and
    rest: "aggregate_scalars A df key groups mid = Inr out'"
    by (auto split: sum.splits)
  with Cons.prems(2) have "\<forall>r\<in>set mid. r ''type'' = Str ''All''"
    using new_scalar_rows_type by blast
  with rest show ?case by (rule Cons.IH)
qed

text \<open>
  Claim C10. Every row that \<^verbatim>\<open>df_agg\<close> returns for a table with the scalars header has
  the literal \<open>All\<close> in its \<open>type\<close> column, whatever the key and whatever the \<open>type\<close> cells
  of the table.
\<close>

theorem scalar_aggregation_type_all:
  assumes "df_header_required (columns df) = required_header_scalars"
    and "df_agg A df key = Inr out"
  shows "\<forall>r\<in>set out. r ''type'' = Str ''All''"
proof -
  from assms obtain groups where "aggregate_scalars A df key groups [] = Inr out"
    by (auto simp: df_agg_def Let_def split: if_splits)
  then show ?thesis using aggregate_scalars_type by fastforce
qed

lemmas aggregate_simps =
  df_agg_def dict_fromkeys_def aggregate_row_def init_key_def add_value_def sub_value_def
  signed_value_def new_scalar_row_def scalar_record_def Let_def py_eq_def nan_like_def
  exact_def

lemma df_agg_example_scalars:
  "df_agg exact example_scalars ''region'' =
     Inr [(\<lambda>_. PyNone)
            (''scenario'' := Str ''base'', ''name'' := Str ''Aggregated by region'',
             ''var_name'' := Str ''flow_electricity'', ''carrier'' := Str ''All'',
             ''region'' := Str ''BB'', ''tech'' := Str ''All'', ''type'' := Str ''All'',
             ''var_value'' := Num (Fin 5), ''var_unit'' := Str ''-''),
          (\<lambda>_. PyNone)
            (''scenario'' := Str ''base'', ''name'' := Str ''Aggregated by region'',
             ''var_name'' := Str ''capacity'', ''carrier'' := Str ''All'',
             ''region'' := Str ''BB'', ''tech'' := Str ''All'', ''type'' := Str ''All'',
             ''var_value'' := Num (Fin 7), ''var_unit'' := Str ''-''),
          (\<lambda>_. PyNone)
            (''scenario'' := Str ''base'', ''name'' := Str ''Aggregated by region'',
             ''var_name'' := Str ''flow_electricity'', ''carrier'' := Str ''All'',
             ''region'' := Str ''BE'', ''tech'' := Str ''All'', ''type'' := Str ''All'',
             ''var_value'' := Num (Fin (- 3)), ''var_unit'' := Str ''-'')]"
  by (simp add: example_scalars_def wind_in_def wind_out_def solar_capacity_def
      schema_simps aggregate_simps fun_eq_iff)

theorem scalar_aggregation_type_all_witness:
  "df_header_required (columns example_scalars) = required_header_scalars \<and>
   (\<exists>out. df_agg exact example_scalars ''region'' = Inr out \<and> length out = 3 \<and>
          (\<forall>r\<in>set out. r ''type'' = Str ''All''))"
proof -
  have shape: "df_header_required (columns example_scalars) = required_header_scalars"
    by (simp add: example_scalars_def schema_simps)
  obtain out where out: "df_agg exact example_scalars ''region'' = Inr out" "length out = 3"
    using df_agg_example_scalars by simp
  from scalar_aggregation_type_all [OF shape out(1)] shape out show ?thesis by blast
qed

subsection \<open>Keys in the order of first occurrence\<close>





subsection \<open>Unknown variables stop the aggregation\<close>

lemma map_of_init_key: "map_of (init_key k d) k \<noteq> None"
  by (auto simp: init_key_def map_of_eq_None_iff dom_update)

lemma add_value_init:
  "add_value A k (Num x) (init_key k d) \<noteq> Inl e"
  using map_of_init_key [of k d] by (auto simp: add_value_def split: option.splits)

lemma signed_value_init:
  "signed_value A vn k (Num x) (init_key k d) \<noteq> Inl e"
  using map_of_init_key [of k d]
  by (auto simp: signed_value_def add_value_def sub_value_def split: option.splits)


lemma aggregate_row_known:
  assumes "readable_scalar r" "\<not> unknown_variable r"
  shows "\<exists>d'. aggregate_row A key r d = Inr d'"
proof -
  from assms(1) obtain vn x c where
    r: "r ''var_name'' = Str vn" "r ''var_value'' = Num x" "r ''carrier'' = Str c" and
    segs: "\<not> str_in ''capacity'' vn \<and> str_in ''flow'' vn \<longrightarrow> 2 < length (split_on CHR ''_'' vn)"
    by (auto simp: readable_scalar_def split: cell.splits)
  from assms(2) r have known: "known_category vn" by (simp add: unknown_variable_def)
  have "aggregate_row A key r d \<noteq> Inl e" for e
    using r segs known
    by (auto simp: aggregate_row_def Let_def known_category_def add_value_init
        signed_value_init)
  then show ?thesis by (cases "aggregate_row A key r d") auto
qed

lemma aggregate_rows_clean:
  "\<forall>r\<in>set rs. readable_scalar r \<Longrightarrow>
   filter unknown_variable
     (filter (\<lambda>r. py_eq (r ''scenario'') scenario \<and> py_eq (r key) key_item) rs) = [] \<Longrightarrow>
   \<exists>d'. aggregate_rows A key scenario key_item rs d = Inr d'"
proof (induction rs arbitrary: d)
  case Nil
  then show ?case by simp
next
  case (Cons r rs)
  show ?case
  proof (cases "py_eq (r ''scenario'') scenario \<and> py_eq (r key) key_item")
    case False
    from Cons.prems False have "\<exists>d'. aggregate_rows A key scenario key_item rs d = Inr d'"
      by (intro Cons.IH) auto
    with False show ?thesis by auto
  next
    case True
    with Cons.prems have "readable_scalar r" "\<not> unknown_variable r"
      by (auto split: if_splits)
    then obtain d' where "aggregate_row A key r d = Inr d'"
      using aggregate_row_known by blast
    moreover from Cons.prems True have "\<exists>d''. aggregate_rows A key scenario key_item rs d' = Inr d''"
      by (intro Cons.IH) (auto split: if_splits)
    ultimately show ?thesis using True by simp
  qed
qed


lemma new_scalar_rows_total:
  "aggregation_key key \<Longrightarrow> \<exists>out'. new_scalar_rows key scenario key_item items out = Inr out'"
  by (induction items arbitrary: out)
    (auto simp: aggregation_key_def new_scalar_row_def)

lemma group_rows_pair:
  "group_rows df key (scenario, key_item) =
     filter (\<lambda>r. py_eq (r ''scenario'') scenario \<and> py_eq (r key) key_item) (rows df)"
  by (simp add: group_rows_def)

lemma aggregate_scalars_clean:
  assumes "\<forall>r\<in>set (rows df). readable_scalar r" "aggregation_key key"
  shows "filter unknown_variable (concat (map (group_rows df key) groups)) = [] \<Longrightarrow>
         \<exists>out'. aggregate_scalars A df key groups out = Inr out'"
proof (induction groups arbitrary: out)
  case Nil
  then show ?case by simp
next
  case (Cons g groups)
  obtain scenario key_item where g: "g = (scenario, key_item)" by (cases g)
  from Cons.prems g have
    "filter unknown_variable
       (filter (\<lambda>r. py_eq (r ''scenario'') scenario \<and> py_eq (r key) key_item) (rows df)) = []"
    by (simp add: group_rows_pair)
  from aggregate_rows_clean [OF assms(1) this]
  obtain d where d: "aggregate_rows A key scenario key_item (rows df) [] = Inr d" by blast
  from new_scalar_rows_total [OF assms(2)] obtain mid where
    mid: "new_scalar_rows key scenario key_item d out = Inr mid" by blast
  from Cons.prems have "\<exists>out'. aggregate_scalars A df key groups mid = Inr out'"
    by (intro Cons.IH) simp
  with d mid show ?case by (simp add: g)
qed






lemmas example_rows =
  wind_in_def wind_out_def solar_capacity_def foobar_in_def mystery_out_def short_flow_def
  foobar_nowhere_def



subsection \<open>The sign convention\<close>

text \<open>
  Claim C2, at the input where the code departs from it. The table holds one row, an
  investment whose \<^verbatim>\<open>var_name\<close> is \<open>invest_out_electricity\<close> with the value 4. The claim has
  values whose name contains \<open>out\<close> subtracted, so the aggregated value should be \<open>0 - 4\<close>.
  \<^verbatim>\<open>df_agg\<close> tests \<^verbatim>\<open>"in" in var_name\<close> first, the word \<open>invest\<close> contains \<open>in\<close>, and the value
  is added: in every arithmetic the aggregated value is \<open>0 + 4\<close>, which is 4 where sums
  are exact.
\<close>

theorem invest_out_is_added:
  "df_agg A invest_out_table ''carrier'' =
     Inr [(scalar_record ''base'' ''Aggregated by carrier'' ''invest'' ''electricity'' ''All''
             ''All'' ''All'' 4)
            (''var_value'' := Num (np_plus A (Fin 0) (Fin 4)), ''var_unit'' := Str ''-'')] \<and>
   df_agg exact invest_out_table ''carrier'' =
     Inr [(scalar_record ''base'' ''Aggregated by carrier'' ''invest'' ''electricity'' ''All''
             ''All'' ''All'' 4)(''var_unit'' := Str ''-'')]"
  by (simp add: invest_out_table_def schema_simps aggregate_simps fun_eq_iff)

text \<open>The example of the claim holds: an incoming flow of 5 and an outgoing flow of 3 of the
  same carrier give one row with the value \<open>(0 + 5) - 3\<close>, which is \<open>5 - 3\<close> where sums are
  exact, and \<open>All\<close> for region and tech.\<close>

lemma flow_in_minus_out_example:
  "df_agg A wind_flows ''carrier'' =
     Inr [(scalar_record ''base'' ''Aggregated by carrier'' ''flow_electricity_wind'' ''wind''
             ''All'' ''All'' ''All'' 0)
            (''var_value'' := Num (np_minus A (np_plus A (Fin 0) (Fin 5)) (Fin 3)),
             ''var_unit'' := Str ''-'')] \<and>
   df_agg exact wind_flows ''carrier'' =
     Inr [(scalar_record ''base'' ''Aggregated by carrier'' ''flow_electricity_wind'' ''wind''
             ''All'' ''All'' ''All'' (5 - 3))(''var_unit'' := Str ''-'')]"
  by (simp add: wind_flows_def example_rows schema_simps aggregate_simps fun_eq_iff)

subsection \<open>Aggregation of time series\<close>














subsection \<open>The checks of the time fields\<close>

lemma check_consistency_cases:
  assumes "index \<in> set time_fields" "index \<in> set (columns df)" "rows df \<noteq> []"
  shows "check_consistency_timeindex df index =
           (if (\<forall>r\<in>set (rows df). r index = hd (rows df) index) \<and>
               \<not> missing (hd (rows df) index)
            then Inr (hd (rows df) index)
            else Inl (InconsistentTimeIndex (time_field_name index) index))"
proof -
  from assms(3) obtain r0 rs where rows: "rows df = r0 # rs" by (cases "rows df") auto
  have all: "list_all (\<lambda>v. array_eq v (r0 index)) (map (\<lambda>r. r index) rs) \<and>
        array_eq (r0 index) (r0 index) \<longleftrightarrow>
      (\<forall>r\<in>set rs. r index = r0 index) \<and> \<not> missing (r0 index)"
    by (auto simp: list_all_iff array_eq_def)
  have first: "array_eq (r0 index) (r0 index) \<Longrightarrow> r0 index \<noteq> PyNone"
    by (auto simp: array_eq_def missing_def)
  from assms(1) consider "index = ''timeindex_start''" | "index = ''timeindex_stop''"
    | "index = ''timeindex_resolution''"
    by (auto simp: time_fields_def)
  then show ?thesis
    using assms(2) rows all first
    by cases (auto simp: check_consistency_timeindex_def time_field_name_def Let_def)
qed

lemma check_consistency_two_values:
  assumes "index \<in> set time_fields" "index \<in> set (columns df)"
    and "r \<in> set (rows df)" "r' \<in> set (rows df)" "r index \<noteq> r' index"
  shows "check_consistency_timeindex df index =
           Inl (InconsistentTimeIndex (time_field_name index) index)"
proof -
  from assms(3) have nonempty: "rows df \<noteq> []" by auto
  from assms(3-5) have "\<exists>x\<in>set (rows df). x index \<noteq> hd (rows df) index"
    by (metis)
  with check_consistency_cases [OF assms(1,2) nonempty] show ?thesis by auto
qed

lemma check_consistency_missing:
  assumes "index \<in> set time_fields" "index \<in> set (columns df)" "rows df \<noteq> []"
    and "\<forall>r\<in>set (rows df). missing (r index)"
  shows "check_consistency_timeindex df index =
           Inl (InconsistentTimeIndex (time_field_name index) index)"
proof -
  from assms(3,4) have "missing (hd (rows df) index)" by simp
  with check_consistency_cases [OF assms(1-3)] show ?thesis by simp
qed

lemma check_consistency_never_missing:
  "check_consistency_timeindex df index \<noteq> Inl (MissingTimeField name label)"
  by (auto simp: check_consistency_timeindex_def Let_def array_eq_def missing_def
      split: list.splits option.splits if_splits)

lemma series_columns_never_missing:
  "series_columns cells n \<noteq> Inl (MissingTimeField name label)"
  by (simp add: series_columns_def)

lemma unstack_never_missing:
  "unstack_timeseries date_range df \<noteq> Inl (MissingTimeField name label)"
  by (auto simp: unstack_timeseries_def Let_def check_consistency_never_missing
      series_columns_never_missing split: sum.splits option.splits prod.splits)

lemma check_consistency_column_only:
  assumes "map (\<lambda>x. x index) (rows df') = map (\<lambda>x. x index) (rows df)"
    and "index \<in> set (columns df') \<longleftrightarrow> index \<in> set (columns df)"
  shows "check_consistency_timeindex df' index = check_consistency_timeindex df index"
  unfolding check_consistency_timeindex_def by (simp only: assms)

lemma check_consistency_shared:
  assumes "index \<in> set (columns df)" "rows df \<noteq> []"
    "\<forall>r\<in>set (rows df). r index = v" "\<not> missing v"
  shows "check_consistency_timeindex df index = Inr v"
proof -
  from assms(2) obtain r0 rs where "rows df = r0 # rs" by (cases "rows df") auto
  with assms show ?thesis
    by (auto simp: check_consistency_timeindex_def Let_def list_all_iff array_eq_def
        missing_def)
qed

text \<open>
  Claim C4, at the input where the code departs from it. Let a stacked table have the
  three time columns. \<^verbatim>\<open>check_consistency_timeindex\<close> compares the column with its first
  element as pandas arrays are compared, and a missing element is equal to nothing; so
  when every \<^verbatim>\<open>timeindex_start\<close> of a table with rows is missing (\<^verbatim>\<open>None\<close>, NaN or \<^verbatim>\<open>NaT\<close>)
  the comparison fails and the check reports \<open>InconsistentTimeIndex\<close> naming \<open>start date\<close>,
  and so does \<^verbatim>\<open>unstack_timeseries\<close> once the check of the resolution, which comes first,
  has passed. The branch \<^verbatim>\<open>if value is None: raise TypeError\<close> is never reached:
  \<^verbatim>\<open>unstack_timeseries\<close> fails with \<open>MissingTimeField\<close> on no table at all. The rest of the
  claim holds. If two rows differ in \<^verbatim>\<open>timeindex_resolution\<close>, \<^verbatim>\<open>unstack_timeseries\<close> fails
  with \<open>InconsistentTimeIndex\<close> naming \<open>frequency\<close>; two rows that differ in
  \<^verbatim>\<open>timeindex_start\<close> or in \<^verbatim>\<open>timeindex_stop\<close> make the check of that field fail naming
  \<open>start date\<close> or \<open>end date\<close>. The check of a field reads the column of that field only:
  on two tables that agree on the column it gives the same result.
\<close>

theorem unstack_checks_time_fields:
  assumes "set time_fields \<subseteq> set (columns df)"
  shows "(rows df \<noteq> [] \<and> (\<forall>x\<in>set (rows df). missing (x ''timeindex_start'')) \<longrightarrow>
            check_consistency_timeindex df ''timeindex_start'' =
              Inl (InconsistentTimeIndex ''start date'' ''timeindex_start'') \<and>
            unstack_timeseries date_range df =
              (case check_consistency_timeindex df ''timeindex_resolution'' of
                 Inl e \<Rightarrow> Inl e
               | Inr frequency \<Rightarrow>
                   Inl (InconsistentTimeIndex ''start date'' ''timeindex_start''))) \<and>
         (\<forall>name label. unstack_timeseries date_range df \<noteq> Inl (MissingTimeField name label)) \<and>
         (r \<in> set (rows df) \<and> r' \<in> set (rows df) \<and>
            r ''timeindex_resolution'' \<noteq> r' ''timeindex_resolution'' \<longrightarrow>
            unstack_timeseries date_range df =
              Inl (InconsistentTimeIndex ''frequency'' ''timeindex_resolution'')) \<and>
         (r \<in> set (rows df) \<and> r' \<in> set (rows df) \<and>
            r ''timeindex_start'' \<noteq> r' ''timeindex_start'' \<longrightarrow>
            check_consistency_timeindex df ''timeindex_start'' =
              Inl (InconsistentTimeIndex ''start date'' ''timeindex_start'')) \<and>
         (r \<in> set (rows df) \<and> r' \<in> set (rows df) \<and>
            r ''timeindex_stop'' \<noteq> r' ''timeindex_stop'' \<longrightarrow>
            check_consistency_timeindex df ''timeindex_stop'' =
              Inl (InconsistentTimeIndex ''end date'' ''timeindex_stop'')) \<and>
         (\<forall>index df'.
            map (\<lambda>x. x index) (rows df') = map (\<lambda>x. x index) (rows df) \<and>
            (index \<in> set (columns df') \<longleftrightarrow> index \<in> set (columns df)) \<longrightarrow>
            check_consistency_timeindex df' index = check_consistency_timeindex df index)"
proof -
  from assms have cols: "''timeindex_resolution'' \<in> set (columns df)"
    "''timeindex_start'' \<in> set (columns df)" "''timeindex_stop'' \<in> set (columns df)"
    by (auto simp: time_fields_def)
  have fields: "''timeindex_resolution'' \<in> set time_fields"
    "''timeindex_start'' \<in> set time_fields" "''timeindex_stop'' \<in> set time_fields"
    by (simp_all add: time_fields_def)
  have names: "time_field_name ''timeindex_resolution'' = ''frequency''"
    "time_field_name ''timeindex_start'' = ''start date''"
    "time_field_name ''timeindex_stop'' = ''end date''"
    by (simp_all add: time_field_name_def)
  have missing: "check_consistency_timeindex df ''timeindex_start'' =
        Inl (InconsistentTimeIndex ''start date'' ''timeindex_start'')"
    if "rows df \<noteq> []" "\<forall>x\<in>set (rows df). missing (x ''timeindex_start'')"
    using check_consistency_missing [OF fields(2) cols(2) that] names by simp
  then have missing_unstack: "unstack_timeseries date_range df =
        (case check_consistency_timeindex df ''timeindex_resolution'' of
           Inl e \<Rightarrow> Inl e
         | Inr frequency \<Rightarrow> Inl (InconsistentTimeIndex ''start date'' ''timeindex_start''))"
    if "rows df \<noteq> []" "\<forall>x\<in>set (rows df). missing (x ''timeindex_start'')"
    using that by (simp add: unstack_timeseries_def split: sum.splits)
  have resolution: "unstack_timeseries date_range df =
        Inl (InconsistentTimeIndex ''frequency'' ''timeindex_resolution'')"
    if "r \<in> set (rows df)" "r' \<in> set (rows df)"
      "r ''timeindex_resolution'' \<noteq> r' ''timeindex_resolution''"
    using check_consistency_two_values [OF fields(1) cols(1) that] names
    by (simp add: unstack_timeseries_def)
  have start: "check_consistency_timeindex df ''timeindex_start'' =
        Inl (InconsistentTimeIndex ''start date'' ''timeindex_start'')"
    if "r \<in> set (rows df)" "r' \<in> set (rows df)" "r ''timeindex_start'' \<noteq> r' ''timeindex_start''"
    using check_consistency_two_values [OF fields(2) cols(2) that] names by simp
  have stop: "check_consistency_timeindex df ''timeindex_stop'' =
        Inl (InconsistentTimeIndex ''end date'' ''timeindex_stop'')"
    if "r \<in> set (rows df)" "r' \<in> set (rows df)" "r ''timeindex_stop'' \<noteq> r' ''timeindex_stop''"
    using check_consistency_two_values [OF fields(3) cols(3) that] names by simp
  from missing missing_unstack resolution start stop check_consistency_column_only
    unstack_never_missing
  show ?thesis by blast
qed

lemma hourly_range_0_2:
  "hourly_date_range (Stamp 0) (Stamp 2) (Str ''H'') = Some ([0, 1, 2], ''H'')"
  by code_simp

lemma hourly_infer_0_2: "hourly_infer_freq [0, 1, 2] = Some (Some ''H'')"
  by (simp add: hourly_infer_freq_def)

lemma transpose_example:
  "transpose [[Fin 1, Fin 2, Fin 3], [Fin 4, Fin 5, Fin 6]] =
     [[Fin 1, Fin 4], [Fin 2, Fin 5], [Fin 3, Fin 6]]"
  by code_simp

theorem unstack_checks_time_fields_witness:
  "set time_fields \<subseteq> set (columns missing_start_table) \<and>
   set time_fields \<subseteq> set (columns example_timeseries) \<and>
   rows missing_start_table \<noteq> [] \<and>
   map (\<lambda>x. x ''timeindex_start'') (rows missing_start_table) = [PyNone, PyNone] \<and>
   bb_wind \<in> set (rows example_timeseries) \<and> be_wind_later \<in> set (rows example_timeseries) \<and>
   bb_wind ''timeindex_resolution'' \<noteq> be_wind_later ''timeindex_resolution'' \<and>
   unstack_timeseries hourly_date_range missing_start_table =
     Inl (InconsistentTimeIndex ''start date'' ''timeindex_start'') \<and>
   unstack_timeseries hourly_date_range example_timeseries =
     Inl (InconsistentTimeIndex ''frequency'' ''timeindex_resolution'')"
proof -
  have cols: "set time_fields \<subseteq> set (columns missing_start_table)"
    "set time_fields \<subseteq> set (columns example_timeseries)"
    by (simp_all add: time_fields_def missing_start_table_def example_timeseries_def
        header_timeseries_def)
  have two: "bb_wind \<in> set (rows example_timeseries)"
    "be_wind_later \<in> set (rows example_timeseries)"
    "bb_wind ''timeindex_resolution'' \<noteq> be_wind_later ''timeindex_resolution''"
    by (simp_all add: example_timeseries_def bb_wind_def be_wind_later_def
        timeseries_record_def)
  have none: "rows missing_start_table \<noteq> []"
    "map (\<lambda>x. x ''timeindex_start'') (rows missing_start_table) = [PyNone, PyNone]"
    "\<forall>x\<in>set (rows missing_start_table). missing (x ''timeindex_start'')"
    by (simp_all add: missing_start_table_def timeseries_record_def missing_def)
  have freq: "check_consistency_timeindex missing_start_table ''timeindex_resolution'' =
      Inr (Str ''H'')"
    by (simp add: check_consistency_timeindex_def missing_start_table_def
        timeseries_record_def header_timeseries_def array_eq_def missing_def nan_like_def)
  from unstack_checks_time_fields
    [OF cols(1), where date_range = hourly_date_range, THEN conjunct1] none
  have "unstack_timeseries hourly_date_range missing_start_table =
      (case check_consistency_timeindex missing_start_table ''timeindex_resolution'' of
         Inl e \<Rightarrow> Inl e
       | Inr frequency \<Rightarrow> Inl (InconsistentTimeIndex ''start date'' ''timeindex_start''))"
    by blast
  with freq have missing: "unstack_timeseries hourly_date_range missing_start_table =
     Inl (InconsistentTimeIndex ''start date'' ''timeindex_start'')"
    by simp
  from unstack_checks_time_fields
    [OF cols(2), where date_range = hourly_date_range and r = bb_wind and r' = be_wind_later,
     THEN conjunct2, THEN conjunct2, THEN conjunct1] two
  have "unstack_timeseries hourly_date_range example_timeseries =
     Inl (InconsistentTimeIndex ''frequency'' ''timeindex_resolution'')"
    by blast
  with missing show ?thesis using cols two none(1,2) by simp
qed

subsection \<open>Stacking\<close>

lemma filter_unique_label:
  "distinct (map fst cs) \<Longrightarrow> c \<in> set cs \<Longrightarrow> filter (\<lambda>x. fst x = fst c) cs = [c]"
proof (induction cs)
  case Nil
  then show ?case by simp
next
  case (Cons a cs)
  show ?case
  proof (cases "a = c")
    case True
    from Cons.prems(1) have "fst a \<notin> fst ` set cs" by simp
    with True have "\<forall>x\<in>set cs. fst x \<noteq> fst c" by (metis imageI)
    then have "filter (\<lambda>x. fst x = fst c) cs = []" by (simp add: filter_empty_conv)
    with True show ?thesis by simp
  next
    case False
    with Cons.prems have "c \<in> set cs" "fst a \<noteq> fst c" by force+
    with Cons show ?thesis by simp
  qed
qed

lemma selected_values_unique:
  "distinct (map fst (data df)) \<Longrightarrow> c \<in> set (data df) \<Longrightarrow>
   selected_values df (fst c) = Seq (snd c)"
  by (simp add: selected_values_def filter_unique_label)

lemma selected_values_single:
  assumes "data df = before @ (label, vs) # after"
    and "label \<notin> fst ` set before" "label \<notin> fst ` set after"
  shows "selected_values df label = Seq vs"
proof -
  from assms(2,3) have "filter (\<lambda>c. fst c = label) before = []"
    "filter (\<lambda>c. fst c = label) after = []"
    by (auto simp: filter_empty_conv)
  with assms(1) show ?thesis by (simp add: selected_values_def)
qed

lemma column_values_present:
  "column \<in> fst ` set (data frame) \<Longrightarrow>
   column_values frame column = Inr (selected_values frame column)"
  by (auto simp: column_values_def filter_empty_conv)

lemma stack_columns_present:
  "set labels \<subseteq> fst ` set (data frame) \<Longrightarrow>
   stack_columns frame start stop resolution labels out =
     Inr (out @ map (\<lambda>column. stacked_row column start stop resolution
                                  (selected_values frame column)) labels)"
  by (induction labels arbitrary: out) (simp_all add: column_values_present)

lemma stack_columns_typed:
  "stack_columns frame start stop resolution labels out \<noteq> Inl NotTimeIndexed"
  by (induction labels arbitrary: out) (auto simp: column_values_def split: sum.splits)

lemma stack_timeseries_rows:
  assumes "timeindex df = DatetimeIndex stamps freqstr" "infer_freq stamps = Some (Some f)"
    and "coerced asfreq f df = Some frame"
    and "timeindex frame = DatetimeIndex frame_stamps frame_freqstr" "frame_stamps \<noteq> []"
    and "map fst (data frame) = map fst (data df)"
  shows "stack_timeseries infer_freq asfreq df =
           Inr (if freqstr = None then [FrequencyInferred f] else [],
                \<lparr>columns = df_stacked_cols,
                 rows = map (\<lambda>column. stacked_row column (Stamp (hd frame_stamps))
                                         (Stamp (last frame_stamps))
                                         (case frame_freqstr of None \<Rightarrow> PyNone | Some s \<Rightarrow> Str s)
                                         (selected_values frame column))
                          (map fst (data df))\<rparr>)"
proof -
  have "set (map fst (data df)) \<subseteq> fst ` set (data frame)"
    using assms(6) by (metis list.set_map subset_refl)
  note columns = stack_columns_present [OF this, where out = "[]"]
  show ?thesis
  proof (cases freqstr)
    case None
    with assms(1,3) have "asfreq f df = Some frame" by (simp add: coerced_def)
    with None assms(1,2,4,5) columns show ?thesis
      by (simp add: stack_timeseries_def)
  next
    case (Some label)
    with assms(1,3) have same: "frame = df" by (simp add: coerced_def)
    with assms(1,4) Some have idx: "frame_stamps = stamps" "frame_freqstr = Some label"
      by simp_all
    from assms(1) Some have "timeindex df = DatetimeIndex stamps (Some label)" by simp
    with assms(2,5) columns show ?thesis
      by (simp add: stack_timeseries_def same idx Some)
  qed
qed

lemma stack_timeseries_empty:
  assumes "timeindex df = DatetimeIndex stamps freqstr" "infer_freq stamps = Some (Some f)"
    and "coerced asfreq f df = Some frame"
    and "timeindex frame = DatetimeIndex [] frame_freqstr"
  shows "stack_timeseries infer_freq asfreq df = Inl IndexError"
proof (cases freqstr)
  case None
  with assms(1,3) have "asfreq f df = Some frame" by (simp add: coerced_def)
  with None assms(1,2,4) show ?thesis by (simp add: stack_timeseries_def)
next
  case (Some label)
  with assms(1,3) have same: "frame = df" by (simp add: coerced_def)
  with assms(1,4) Some have idx: "stamps = []" "frame_freqstr = Some label"
    by simp_all
  from assms(1) Some have "timeindex df = DatetimeIndex stamps (Some label)" by simp
  with assms(2) show ?thesis
    by (simp add: stack_timeseries_def same idx Some)
qed

text \<open>
  Claim C5, as amended. \<^verbatim>\<open>stack_timeseries\<close> fails with \<open>NotTimeIndexed\<close> when the row index
  of the wide table is not a \<^verbatim>\<open>DatetimeIndex\<close>, and never for a table whose index is one,
  whatever the order of its timestamps. For a \<^verbatim>\<open>DatetimeIndex\<close> it fails with the exception
  of pandas when the inference of the frequency raises, and with \<open>NoFixedFrequency\<close> when
  pandas infers no frequency. When pandas infers the frequency \<open>f\<close>, the function reads on
  from the table itself if its index has a frequency label, and from what \<^verbatim>\<open>asfreq\<close> makes
  of the table if it has none; it fails with the exception of pandas when \<^verbatim>\<open>asfreq\<close>
  raises, and with \<^verbatim>\<open>IndexError\<close> when the index it reads from is empty. Otherwise, the
  column labels being kept, it returns one stacked row per column of the wide table, in
  column order, with the column label as \<^verbatim>\<open>var_name\<close>, the first and the last timestamp of
  the index it reads from as \<^verbatim>\<open>timeindex_start\<close> and \<^verbatim>\<open>timeindex_stop\<close>, and the frequency
  label of that index as \<^verbatim>\<open>timeindex_resolution\<close>. The row of a column whose label no
  other column carries has the values of that column as \<^verbatim>\<open>series\<close>.
\<close>

theorem stack_timeseries_result:
  "(timeindex df = OtherIndex labels \<longrightarrow>
      stack_timeseries infer_freq asfreq df = Inl NotTimeIndexed) \<and>
   (timeindex df = DatetimeIndex stamps freqstr \<longrightarrow>
      stack_timeseries infer_freq asfreq df \<noteq> Inl NotTimeIndexed \<and>
      (infer_freq stamps = None \<longrightarrow> stack_timeseries infer_freq asfreq df = Inl PandasError) \<and>
      (infer_freq stamps = Some None \<longrightarrow>
         stack_timeseries infer_freq asfreq df = Inl NoFixedFrequency) \<and>
      (infer_freq stamps = Some (Some f) \<and> coerced asfreq f df = None \<longrightarrow>
         stack_timeseries infer_freq asfreq df = Inl PandasError) \<and>
      (infer_freq stamps = Some (Some f) \<and> coerced asfreq f df = Some frame \<and>
       timeindex frame = DatetimeIndex frame_stamps frame_freqstr \<longrightarrow>
         (frame_stamps = [] \<longrightarrow> stack_timeseries infer_freq asfreq df = Inl IndexError) \<and>
         (frame_stamps \<noteq> [] \<and> map fst (data frame) = map fst (data df) \<longrightarrow>
            (\<exists>msgs out.
               stack_timeseries infer_freq asfreq df = Inr (msgs, out) \<and>
               columns out = df_stacked_cols \<and>
               length (rows out) = length (data df) \<and>
               map (\<lambda>row. row ''var_name'') (rows out) = map fst (data df) \<and>
               (\<forall>row\<in>set (rows out).
                  row ''timeindex_start'' = Stamp (hd frame_stamps) \<and>
                  row ''timeindex_stop'' = Stamp (last frame_stamps) \<and>
                  row ''timeindex_resolution'' =
                    (case frame_freqstr of None \<Rightarrow> PyNone | Some s \<Rightarrow> Str s)) \<and>
               (\<forall>before label vs after.
                  data frame = before @ (label, vs) # after \<and>
                  label \<notin> fst ` set before \<and> label \<notin> fst ` set after \<longrightarrow>
                  (rows out ! length before) ''series'' = Seq vs)))))"
proof -
  let ?stack = "stack_timeseries infer_freq asfreq df"
  have other: "?stack = Inl NotTimeIndexed" if "timeindex df = OtherIndex labels"
    using that by (simp add: stack_timeseries_def)
  have typed: "?stack \<noteq> Inl NotTimeIndexed" if "timeindex df = DatetimeIndex stamps freqstr"
    using that
    by (auto simp: stack_timeseries_def stack_columns_typed
        split: option.splits pd_index.splits sum.splits)
  have raises: "?stack = Inl PandasError"
    if "timeindex df = DatetimeIndex stamps freqstr" "infer_freq stamps = None"
    using that by (simp add: stack_timeseries_def)
  have nofreq: "?stack = Inl NoFixedFrequency"
    if "timeindex df = DatetimeIndex stamps freqstr" "infer_freq stamps = Some None"
    using that by (simp add: stack_timeseries_def)
  have asfreq_raises: "?stack = Inl PandasError"
    if "timeindex df = DatetimeIndex stamps freqstr" "infer_freq stamps = Some (Some f)"
      "coerced asfreq f df = None"
    using that by (cases freqstr) (simp_all add: stack_timeseries_def coerced_def)
  have empty: "?stack = Inl IndexError"
    if "timeindex df = DatetimeIndex stamps freqstr" "infer_freq stamps = Some (Some f)"
      "coerced asfreq f df = Some frame" "timeindex frame = DatetimeIndex frame_stamps frame_freqstr"
      "frame_stamps = []"
    using that
      stack_timeseries_empty [where infer_freq = infer_freq and asfreq = asfreq and df = df
        and stamps = stamps and freqstr = freqstr and f = f and frame = frame
        and frame_freqstr = frame_freqstr]
    by simp
  have stacked: "\<exists>msgs out.
         ?stack = Inr (msgs, out) \<and>
         columns out = df_stacked_cols \<and>
         length (rows out) = length (data df) \<and>
         map (\<lambda>row. row ''var_name'') (rows out) = map fst (data df) \<and>
         (\<forall>row\<in>set (rows out).
            row ''timeindex_start'' = Stamp (hd frame_stamps) \<and>
            row ''timeindex_stop'' = Stamp (last frame_stamps) \<and>
            row ''timeindex_resolution'' =
              (case frame_freqstr of None \<Rightarrow> PyNone | Some s \<Rightarrow> Str s)) \<and>
         (\<forall>before label vs after.
            data frame = before @ (label, vs) # after \<and>
            label \<notin> fst ` set before \<and> label \<notin> fst ` set after \<longrightarrow>
            (rows out ! length before) ''series'' = Seq vs)"
    if "timeindex df = DatetimeIndex stamps freqstr" "infer_freq stamps = Some (Some f)"
      "coerced asfreq f df = Some frame" "timeindex frame = DatetimeIndex frame_stamps frame_freqstr"
      "frame_stamps \<noteq> []" "map fst (data frame) = map fst (data df)"
  proof -
    let ?row = "\<lambda>column. stacked_row column (Stamp (hd frame_stamps)) (Stamp (last frame_stamps))
                   (case frame_freqstr of None \<Rightarrow> PyNone | Some s \<Rightarrow> Str s)
                   (selected_values frame column)"
    let ?rows = "map ?row (map fst (data df))"
    have run: "?stack = Inr (if freqstr = None then [FrequencyInferred f] else [],
                             \<lparr>columns = df_stacked_cols, rows = ?rows\<rparr>)"
      using that
        stack_timeseries_rows [where infer_freq = infer_freq and asfreq = asfreq and df = df
          and stamps = stamps and freqstr = freqstr and f = f and frame = frame
          and frame_stamps = frame_stamps and frame_freqstr = frame_freqstr]
      by simp
    have names: "map (\<lambda>row. row ''var_name'') ?rows = map fst (data df)"
      by (simp add: stacked_row_def comp_def)
    have fields: "\<forall>row\<in>set ?rows.
             row ''timeindex_start'' = Stamp (hd frame_stamps) \<and>
             row ''timeindex_stop'' = Stamp (last frame_stamps) \<and>
             row ''timeindex_resolution'' =
               (case frame_freqstr of None \<Rightarrow> PyNone | Some s \<Rightarrow> Str s)"
      by (auto simp: stacked_row_def)
    have series: "(?rows ! length before) ''series'' = Seq vs"
      if split: "data frame = before @ (label, vs) # after"
        and single: "label \<notin> fst ` set before" "label \<notin> fst ` set after"
      for before label vs after
    proof -
      from split have "map fst (data df) = map fst before @ label # map fst after"
        using \<open>map fst (data frame) = map fst (data df)\<close> by (metis fst_conv list.simps(9) map_append)
      then have "?rows ! length before = ?row label"
        by (simp add: nth_append)
      with selected_values_single [OF split single] show ?thesis
        by (simp add: stacked_row_def)
    qed
    from series have "\<forall>before label vs after.
            data frame = before @ (label, vs) # after \<and>
            label \<notin> fst ` set before \<and> label \<notin> fst ` set after \<longrightarrow>
            (?rows ! length before) ''series'' = Seq vs"
      by blast
    with run names fields show ?thesis by simp
  qed
  from other typed raises nofreq asfreq_raises empty stacked show ?thesis by blast
qed

lemma hourly_asfreq_example:
  "coerced hourly_asfreq ''H'' example_wide =
     Some \<lparr>timeindex = DatetimeIndex [0, 1, 2] (Some ''H''), data = data example_wide\<rparr>"
  by (simp add: coerced_def hourly_asfreq_def example_wide_def)

theorem stack_timeseries_result_witness:
  "timeindex example_wide = DatetimeIndex [0, 1, 2] None \<and>
   hourly_infer_freq [0, 1, 2] = Some (Some ''H'') \<and>
   data example_wide =
     [(Str ''wind-profile'', [Fin 1, Fin 2, Fin 3]),
      (Str ''solar-profile'', [Fin 10, Fin 20, Fin 30])] \<and>
   (\<exists>msgs out. stack_timeseries hourly_infer_freq hourly_asfreq example_wide = Inr (msgs, out) \<and>
      map (\<lambda>row. row ''var_name'') (rows out) = [Str ''wind-profile'', Str ''solar-profile''] \<and>
      map (\<lambda>row. row ''timeindex_resolution'') (rows out) = [Str ''H'', Str ''H''] \<and>
      map (\<lambda>row. row ''series'') (rows out) =
        [Seq [Fin 1, Fin 2, Fin 3], Seq [Fin 10, Fin 20, Fin 30]])"
proof -
  let ?frame = "\<lparr>timeindex = DatetimeIndex [0, 1, 2] (Some ''H''), data = data example_wide\<rparr>"
  have idx: "timeindex example_wide = DatetimeIndex [0, 1, 2] None"
    by (simp add: example_wide_def)
  have cols: "data example_wide =
     [(Str ''wind-profile'', [Fin 1, Fin 2, Fin 3]),
      (Str ''solar-profile'', [Fin 10, Fin 20, Fin 30])]"
    by (simp add: example_wide_def)
  from stack_timeseries_result
    [where df = example_wide and infer_freq = hourly_infer_freq and asfreq = hourly_asfreq
       and stamps = "[0, 1, 2]" and freqstr = None and f = "''H''" and frame = ?frame
       and frame_stamps = "[0, 1, 2]" and frame_freqstr = "Some ''H''", THEN conjunct2]
    idx hourly_infer_0_2 hourly_asfreq_example
  obtain msgs out where out:
    "stack_timeseries hourly_infer_freq hourly_asfreq example_wide = Inr (msgs, out)"
    "length (rows out) = length (data example_wide)"
    "map (\<lambda>row. row ''var_name'') (rows out) = map fst (data example_wide)"
    "\<forall>row\<in>set (rows out). row ''timeindex_resolution'' = Str ''H''"
    "\<forall>before label vs after.
        data example_wide = before @ (label, vs) # after \<and>
        label \<notin> fst ` set before \<and> label \<notin> fst ` set after \<longrightarrow>
        (rows out ! length before) ''series'' = Seq vs"
    by auto
  from out(2) cols obtain a b where rows: "rows out = [a, b]"
    by (cases "rows out"; cases "tl (rows out)"; cases "tl (tl (rows out))") auto
  from out(5) [rule_format, of "[]" "Str ''wind-profile''" "[Fin 1, Fin 2, Fin 3]"
      "[(Str ''solar-profile'', [Fin 10, Fin 20, Fin 30])]"] cols rows
  have first: "a ''series'' = Seq [Fin 1, Fin 2, Fin 3]" by simp
  from out(5) [rule_format, of "[(Str ''wind-profile'', [Fin 1, Fin 2, Fin 3])]"
      "Str ''solar-profile''" "[Fin 10, Fin 20, Fin 30]" "[]"] cols rows
  have second: "b ''series'' = Seq [Fin 10, Fin 20, Fin 30]" by simp
  from out(1,3,4) rows first second cols idx hourly_infer_0_2 show ?thesis by simp
qed

text \<open>
  The claim as stated rejects every index that is not an ascending sequence of timestamps
  with \<open>NotTimeIndexed\<close>. The index of the first table below is a \<^verbatim>\<open>DatetimeIndex\<close> whose
  timestamps are not sorted; it passes the type test, no frequency is inferred from it, and
  the failure is \<open>NoFixedFrequency\<close>. The index of the second one descends hour by hour and
  has no frequency label; the frequency inferred is a negative one, the range that \<^verbatim>\<open>asfreq\<close>
  builds with it is empty, and reading its first timestamp raises \<^verbatim>\<open>IndexError\<close>.
\<close>

theorem stack_unsorted_index_counterexample:
  "\<not> sorted [2, 0, 1::int] \<and> timeindex unsorted_wide = DatetimeIndex [2, 0, 1] None \<and>
   stack_timeseries hourly_infer_freq hourly_asfreq unsorted_wide = Inl NoFixedFrequency \<and>
   \<not> sorted [2, 1, 0::int] \<and> timeindex descending_wide = DatetimeIndex [2, 1, 0] None \<and>
   stack_timeseries hourly_infer_freq hourly_asfreq descending_wide = Inl IndexError"
  by (simp add: unsorted_wide_def descending_wide_def stack_timeseries_def
      hourly_infer_freq_def hourly_asfreq_def)

subsection \<open>Unstacking and stacking again\<close>

lemma series_columns_flat:
  "\<forall>c\<in>set cs. \<exists>xs. c = Seq xs \<and> length xs = n \<Longrightarrow>
   series_columns cs n = Inr (map (\<lambda>c. case c of Seq xs \<Rightarrow> xs | _ \<Rightarrow> []) cs)"
  by (auto simp: series_columns_def list_all_iff)

text \<open>
  Claim C1, as amended. Let a stacked table with the columns that are read have at least
  one row, let all rows share one start, one stop and one resolution, none of them missing,
  let pandas build from these an index of timestamps from which it infers a frequency, let
  every series be a flat sequence with one element per timestamp, and let the \<^verbatim>\<open>var_name\<close>
  entries be pairwise distinct. Then unstacking succeeds, stacking its result succeeds, and
  the table so obtained has the series of the original, element by element, and its
  \<^verbatim>\<open>var_name\<close> entries, both in row order. The index that \<^verbatim>\<open>pd.date_range\<close> builds carries
  its frequency label, so \<^verbatim>\<open>asfreq\<close> is not called on the way back.
\<close>

theorem stack_unstack_roundtrip:
  assumes "stackable df" and "rows df \<noteq> []"
    and "\<forall>r\<in>set (rows df).
           r ''timeindex_start'' = start \<and> r ''timeindex_stop'' = stop \<and>
           r ''timeindex_resolution'' = frequency"
    and "\<not> missing start" "\<not> missing stop" "\<not> missing frequency"
    and "date_range start stop frequency = Some (stamps, label)"
    and "infer_freq stamps = Some (Some f)" and "stamps \<noteq> []"
    and "\<forall>r\<in>set (rows df). \<exists>xs. r ''series'' = Seq xs \<and> length xs = length stamps"
    and "distinct (map (\<lambda>r. r ''var_name'') (rows df))"
  shows "\<exists>msgs unstacked msgs' stacked.
           unstack_timeseries date_range df = Inr (msgs, unstacked) \<and>
           stack_timeseries infer_freq asfreq unstacked = Inr (msgs', stacked) \<and>
           map (\<lambda>r. r ''series'') (rows stacked) = map (\<lambda>r. r ''series'') (rows df) \<and>
           map (\<lambda>r. r ''var_name'') (rows stacked) = map (\<lambda>r. r ''var_name'') (rows df)"
proof -
  let ?lists = "map (\<lambda>c. case c of Seq xs \<Rightarrow> xs | _ \<Rightarrow> []) (map (\<lambda>r. r ''series'') (rows df))"
  let ?wide = "\<lparr>timeindex = DatetimeIndex stamps (Some label),
                data = zip (map (\<lambda>r. r ''var_name'') (rows df)) ?lists\<rparr>"
  let ?msgs = "map ColumnLost (filter (\<lambda>col. col \<in> set (columns df)) [''source'', ''comment''])"
  from assms(1) have cols: "''timeindex_resolution'' \<in> set (columns df)"
    "''timeindex_start'' \<in> set (columns df)" "''timeindex_stop'' \<in> set (columns df)"
    "''series'' \<in> set (columns df)" "''var_name'' \<in> set (columns df)"
    by (auto simp: stackable_def)
  from assms(3) have shared: "\<forall>r\<in>set (rows df). r ''timeindex_resolution'' = frequency"
    "\<forall>r\<in>set (rows df). r ''timeindex_start'' = start"
    "\<forall>r\<in>set (rows df). r ''timeindex_stop'' = stop"
    by simp_all
  have checks: "check_consistency_timeindex df ''timeindex_resolution'' = Inr frequency"
    "check_consistency_timeindex df ''timeindex_start'' = Inr start"
    "check_consistency_timeindex df ''timeindex_stop'' = Inr stop"
    using check_consistency_shared [OF cols(1) assms(2) shared(1) assms(6)]
      check_consistency_shared [OF cols(2) assms(2) shared(2) assms(4)]
      check_consistency_shared [OF cols(3) assms(2) shared(3) assms(5)]
    by simp_all
  from assms(10) have
    "series_columns (map (\<lambda>r. r ''series'') (rows df)) (length stamps) = Inr ?lists"
    by (intro series_columns_flat) auto
  with checks cols assms(7) have unstack: "unstack_timeseries date_range df = Inr (?msgs, ?wide)"
    by (simp add: unstack_timeseries_def Let_def)
  define w where "w = ?wide"
  have idx: "timeindex w = DatetimeIndex stamps (Some label)" by (simp add: w_def)
  have data: "data w = map (\<lambda>r. (r ''var_name'', case r ''series'' of Seq xs \<Rightarrow> xs | _ \<Rightarrow> []))
                          (rows df)"
    by (simp add: w_def zip_map_map zip_same_conv_map)
  then have labels: "map fst (data w) = map (\<lambda>r. r ''var_name'') (rows df)"
    by (simp add: comp_def)
  from assms(10) have series: "map (\<lambda>c. Seq (snd c)) (data w) = map (\<lambda>r. r ''series'') (rows df)"
    unfolding data by auto
  from labels assms(11) have distinct: "distinct (map fst (data w))" by simp
  from idx have frame: "coerced asfreq f w = Some w" by (simp add: coerced_def)
  let ?row = "\<lambda>column. stacked_row column (Stamp (hd stamps)) (Stamp (last stamps))
                 (Str label) (selected_values w column)"
  from idx assms(8,9) frame
    stack_timeseries_rows [where infer_freq = infer_freq and asfreq = asfreq and df = w
      and stamps = stamps and freqstr = "Some label" and f = f and frame = w
      and frame_stamps = stamps and frame_freqstr = "Some label"]
  have stack: "stack_timeseries infer_freq asfreq w =
      Inr ([], \<lparr>columns = df_stacked_cols, rows = map ?row (map fst (data w))\<rparr>)"
    by simp
  have names: "map (\<lambda>row. row ''var_name'') (map ?row (map fst (data w))) = map fst (data w)"
    by (simp add: stacked_row_def comp_def)
  have "selected_values w (fst c) = Seq (snd c)" if "c \<in> set (data w)" for c
    using selected_values_unique [OF distinct that] .
  then have kept:
    "map (\<lambda>row. row ''series'') (map ?row (map fst (data w))) = map (\<lambda>c. Seq (snd c)) (data w)"
    by (simp add: stacked_row_def comp_def)
  from unstack have "unstack_timeseries date_range df = Inr (?msgs, w)" by (simp add: w_def)
  with stack names kept labels series show ?thesis by simp
qed

theorem stack_unstack_roundtrip_witness:
  "stackable example_profiles \<and> rows example_profiles = [bb_wind, bb_solar] \<and>
   hourly_date_range (Stamp 0) (Stamp 2) (Str ''H'') = Some ([0, 1, 2], ''H'') \<and>
   hourly_infer_freq [0, 1, 2] = Some (Some ''H'') \<and>
   (\<exists>msgs unstacked msgs' stacked.
      unstack_timeseries hourly_date_range example_profiles = Inr (msgs, unstacked) \<and>
      stack_timeseries hourly_infer_freq hourly_asfreq unstacked = Inr (msgs', stacked) \<and>
      map (\<lambda>r. r ''series'') (rows stacked) =
        [Seq [Fin 1, Fin 2, Fin 3], Seq [Fin 10, Fin 20, Fin 30]] \<and>
      map (\<lambda>r. r ''var_name'') (rows stacked) = [Str ''wind-profile'', Str ''solar-profile''])"
proof -
  have st: "stackable example_profiles"
    by (simp add: stackable_def example_profiles_def header_timeseries_def)
  have rs: "rows example_profiles = [bb_wind, bb_solar]" by (simp add: example_profiles_def)
  have shared: "\<forall>r\<in>set (rows example_profiles).
           r ''timeindex_start'' = Stamp 0 \<and> r ''timeindex_stop'' = Stamp 2 \<and>
           r ''timeindex_resolution'' = Str ''H''"
    by (simp add: rs bb_wind_def bb_solar_def timeseries_record_def)
  have flat: "\<forall>r\<in>set (rows example_profiles).
      \<exists>xs. r ''series'' = Seq xs \<and> length xs = length [0, 1, 2::int]"
    by (simp add: rs bb_wind_def bb_solar_def timeseries_record_def)
  have names: "distinct (map (\<lambda>r. r ''var_name'') (rows example_profiles))"
    by (simp add: rs bb_wind_def bb_solar_def timeseries_record_def)
  have present: "\<not> missing (Stamp 0)" "\<not> missing (Stamp 2)" "\<not> missing (Str ''H'')"
    by (simp_all add: missing_def nan_like_def)
  from stack_unstack_roundtrip
    [where df = example_profiles and date_range = hourly_date_range
       and infer_freq = hourly_infer_freq and asfreq = hourly_asfreq
       and start = "Stamp 0" and stop = "Stamp 2"
       and frequency = "Str ''H''" and stamps = "[0, 1, 2]" and label = "''H''"
       and f = "''H''", OF st _ shared present hourly_range_0_2 hourly_infer_0_2 _ flat names]
  have "\<exists>msgs unstacked msgs' stacked.
      unstack_timeseries hourly_date_range example_profiles = Inr (msgs, unstacked) \<and>
      stack_timeseries hourly_infer_freq hourly_asfreq unstacked = Inr (msgs', stacked) \<and>
      map (\<lambda>r. r ''series'') (rows stacked) = map (\<lambda>r. r ''series'') (rows example_profiles) \<and>
      map (\<lambda>r. r ''var_name'') (rows stacked) = map (\<lambda>r. r ''var_name'') (rows example_profiles)"
    by (simp add: rs)
  moreover have "map (\<lambda>r. r ''series'') (rows example_profiles) =
      [Seq [Fin 1, Fin 2, Fin 3], Seq [Fin 10, Fin 20, Fin 30]]"
    "map (\<lambda>r. r ''var_name'') (rows example_profiles) = [Str ''wind-profile'', Str ''solar-profile'']"
    by (simp_all add: rs bb_wind_def bb_solar_def timeseries_record_def)
  ultimately show ?thesis using st rs hourly_range_0_2 hourly_infer_0_2 by simp
qed

text \<open>
  The claim as stated covers every stacked table with shared time fields. In the table
  below two regions have a profile of the same \<^verbatim>\<open>var_name\<close>. Unstacking gives two columns
  with one label; stacking selects both columns for that label, and each stacked row holds
  the three rows of the two columns instead of the series it came from.
\<close>

theorem roundtrip_same_name_counterexample:
  "unstack_timeseries hourly_date_range same_name_table =
     Inr ([ColumnLost ''source'', ColumnLost ''comment''],
          \<lparr>timeindex = DatetimeIndex [0, 1, 2] (Some ''H''),
           data = [(Str ''wind-profile'', [Fin 1, Fin 2, Fin 3]),
                   (Str ''wind-profile'', [Fin 4, Fin 5, Fin 6])]\<rparr>) \<and>
   stack_timeseries hourly_infer_freq hourly_asfreq
     \<lparr>timeindex = DatetimeIndex [0, 1, 2] (Some ''H''),
      data = [(Str ''wind-profile'', [Fin 1, Fin 2, Fin 3]),
              (Str ''wind-profile'', [Fin 4, Fin 5, Fin 6])]\<rparr> =
     Inr ([],
          \<lparr>columns = df_stacked_cols,
           rows = [stacked_row (Str ''wind-profile'') (Stamp 0) (Stamp 2) (Str ''H'')
                     (Table [[Fin 1, Fin 4], [Fin 2, Fin 5], [Fin 3, Fin 6]]),
                   stacked_row (Str ''wind-profile'') (Stamp 0) (Stamp 2) (Str ''H'')
                     (Table [[Fin 1, Fin 4], [Fin 2, Fin 5], [Fin 3, Fin 6]])]\<rparr>) \<and>
   map (\<lambda>r. r ''series'') (rows same_name_table) =
     [Seq [Fin 1, Fin 2, Fin 3], Seq [Fin 4, Fin 5, Fin 6]]"
proof -
  have checks:
    "check_consistency_timeindex same_name_table ''timeindex_resolution'' = Inr (Str ''H'')"
    "check_consistency_timeindex same_name_table ''timeindex_start'' = Inr (Stamp 0)"
    "check_consistency_timeindex same_name_table ''timeindex_stop'' = Inr (Stamp 2)"
    by (simp_all add: same_name_table_def be_wind_def bb_wind_def timeseries_record_def
        check_consistency_timeindex_def header_timeseries_def array_eq_def missing_def
        nan_like_def)
  have cells: "map (\<lambda>r. r ''series'') (rows same_name_table) =
      [Seq [Fin 1, Fin 2, Fin 3], Seq [Fin 4, Fin 5, Fin 6]]"
    "map (\<lambda>r. r ''var_name'') (rows same_name_table) =
       [Str ''wind-profile'', Str ''wind-profile'']"
    by (simp_all add: same_name_table_def be_wind_def bb_wind_def timeseries_record_def)
  have cols: "columns same_name_table = header_timeseries"
    by (simp add: same_name_table_def)
  have unstack: "unstack_timeseries hourly_date_range same_name_table =
     Inr ([ColumnLost ''source'', ColumnLost ''comment''],
          \<lparr>timeindex = DatetimeIndex [0, 1, 2] (Some ''H''),
           data = [(Str ''wind-profile'', [Fin 1, Fin 2, Fin 3]),
                   (Str ''wind-profile'', [Fin 4, Fin 5, Fin 6])]\<rparr>)"
    by (simp add: unstack_timeseries_def checks cells cols header_timeseries_def
        hourly_range_0_2 series_columns_def)
  have both: "column_values
      \<lparr>timeindex = DatetimeIndex [0, 1, 2] (Some ''H''),
       data = [(Str ''wind-profile'', [Fin 1, Fin 2, Fin 3]),
               (Str ''wind-profile'', [Fin 4, Fin 5, Fin 6])]\<rparr>
      (Str ''wind-profile'') = Inr (Table [[Fin 1, Fin 4], [Fin 2, Fin 5], [Fin 3, Fin 6]])"
    by (simp add: column_values_def selected_values_def transpose_example)
  have stack: "stack_timeseries hourly_infer_freq hourly_asfreq
     \<lparr>timeindex = DatetimeIndex [0, 1, 2] (Some ''H''),
      data = [(Str ''wind-profile'', [Fin 1, Fin 2, Fin 3]),
              (Str ''wind-profile'', [Fin 4, Fin 5, Fin 6])]\<rparr> =
     Inr ([],
          \<lparr>columns = df_stacked_cols,
           rows = [stacked_row (Str ''wind-profile'') (Stamp 0) (Stamp 2) (Str ''H'')
                     (Table [[Fin 1, Fin 4], [Fin 2, Fin 5], [Fin 3, Fin 6]]),
                   stacked_row (Str ''wind-profile'') (Stamp 0) (Stamp 2) (Str ''H'')
                     (Table [[Fin 1, Fin 4], [Fin 2, Fin 5], [Fin 3, Fin 6]])]\<rparr>)"
    by (simp add: stack_timeseries_def hourly_infer_0_2 both Let_def)
  from unstack stack cells(1) show ?thesis by simp
qed

subsection \<open>Deriving the region while loading\<close>

lemma region_from_var_name_code:
  "region_from_var_name (Str var_name) =
     (case region_code var_name of Some code \<Rightarrow> Inr (Str code) | None \<Rightarrow> Inl MissingRegion)"
  by (simp add: region_from_var_name_def region_code_def)

lemma extract_regions_names:
  "map (\<lambda>r. r ''var_name'') rs = map (\<lambda>r. r ''var_name'') rs' \<Longrightarrow>
   extract_regions rs acc = extract_regions rs' acc"
proof (induction rs arbitrary: rs' acc)
  case Nil
  then show ?case by simp
next
  case (Cons r rs)
  then obtain r' rs'' where rs': "rs' = r' # rs''" by (cases rs') auto
  with Cons.prems have "r ''var_name'' = r' ''var_name''"
    "map (\<lambda>r. r ''var_name'') rs = map (\<lambda>r. r ''var_name'') rs''"
    by simp_all
  with Cons.IH [of rs''] rs' show ?case by (simp split: sum.splits)
qed

lemma extract_regions_all:
  "\<forall>r\<in>set rs. \<exists>vn code. r ''var_name'' = Str vn \<and> region_code vn = Some code \<Longrightarrow>
   extract_regions rs acc = Inr (acc @ map derived_region rs)"
proof (induction rs arbitrary: acc)
  case Nil
  then show ?case by simp
next
  case (Cons r rs)
  then obtain vn code where r: "r ''var_name'' = Str vn" "region_code vn = Some code" by auto
  then have "derived_region r = Str code" by (simp add: derived_region_def)
  moreover from Cons.prems have "extract_regions rs (acc @ [Str code]) =
      Inr ((acc @ [Str code]) @ map derived_region rs)"
    by (intro Cons.IH) simp
  ultimately show ?case using r by (simp add: region_from_var_name_code)
qed

lemma extract_regions_missing:
  "\<forall>r\<in>set rs. \<exists>vn. r ''var_name'' = Str vn \<Longrightarrow>
   \<exists>r\<in>set rs. \<exists>vn. r ''var_name'' = Str vn \<and> region_code vn = None \<Longrightarrow>
   extract_regions rs acc = Inl MissingRegion"
proof (induction rs arbitrary: acc)
  case Nil
  then show ?case by simp
next
  case (Cons r rs)
  from Cons.prems(1) obtain vn where vn: "r ''var_name'' = Str vn" by auto
  show ?case
  proof (cases "region_code vn")
    case None
    with vn show ?thesis by (simp add: region_from_var_name_code)
  next
    case (Some code)
    with vn Cons.prems(2) have "\<exists>r\<in>set rs. \<exists>vn. r ''var_name'' = Str vn \<and> region_code vn = None"
      by auto
    with Cons.prems(1) have "extract_regions rs (acc @ [Str code]) = Inl MissingRegion"
      by (intro Cons.IH) simp_all
    with vn Some show ?thesis by (simp add: region_from_var_name_code)
  qed
qed

lemma add_column_field:
  "length vals = length (rows df) \<Longrightarrow>
   map (\<lambda>r. r k) (rows (add_column c vals df)) =
     (if k = c then vals else map (\<lambda>r. r k) (rows df))"
proof -
  assume len: "length vals = length (rows df)"
  have "map (\<lambda>r. r k) (map (\<lambda>(r, v). r(c := v)) (zip rs vs)) =
      (if k = c then vs else map (\<lambda>r. r k) rs)"
    if "length vs = length rs" for rs :: "row list" and vs
    using that [symmetric] by (induction rs vs rule: list_induct2) auto
  from this [of vals "rows df"] len show ?thesis by (simp add: add_column_def)
qed

lemma add_column_length:
  "length vals = length (rows df) \<Longrightarrow> length (rows (add_column c vals df)) = length (rows df)"
  by (simp add: add_column_def)

lemma fill_optional_field:
  "k \<noteq> c \<Longrightarrow> map (\<lambda>r. r k) (rows (fill_optional c df)) = map (\<lambda>r. r k) (rows df)"
  by (simp add: fill_optional_def add_column_field)

lemma fill_optional_length: "length (rows (fill_optional c df)) = length (rows df)"
  by (simp add: fill_optional_def add_column_length)

lemma fill_optional_columns:
  "set (columns (fill_optional c df)) = insert c (set (columns df))"
  by (auto simp: fill_optional_def add_column_def)

lemma select_columns_field:
  "set header \<subseteq> set (columns df) \<Longrightarrow>
   \<exists>out. select_columns header df = Inr out \<and> columns out = header \<and>
         (\<forall>k\<in>set header. map (\<lambda>r. r k) (rows out) = map (\<lambda>r. r k) (rows df))"
proof -
  assume "set header \<subseteq> set (columns df)"
  then have "filter (\<lambda>c. c \<notin> set (columns df)) header = []"
    by (auto simp: filter_empty_conv)
  then show ?thesis by (simp add: select_columns_def comp_def)
qed

text \<open>
  Claim C8, as amended. Let a stacked table have exactly the columns \<^verbatim>\<open>var_name\<close>,
  \<^verbatim>\<open>timeindex_start\<close>, \<^verbatim>\<open>timeindex_stop\<close>, \<^verbatim>\<open>timeindex_resolution\<close>, \<^verbatim>\<open>series\<close>, in this order,
  and let every \<^verbatim>\<open>var_name\<close> be a string. If in some \<^verbatim>\<open>var_name\<close> neither \<open>BE\<close> nor \<open>BB\<close>
  occurs, loading fails with \<open>MissingRegion\<close>. Otherwise loading succeeds, the result has the
  full time series header, and the region of each row is derived from its \<^verbatim>\<open>var_name\<close>:
  \<open>BE_BB\<close> when both tokens occur, else the one token that occurs.
\<close>

theorem load_timeseries_derives_region:
  assumes "columns df = required_without_region"
    and "\<forall>r\<in>set (rows df). \<exists>vn. r ''var_name'' = Str vn"
  shows "((\<exists>r\<in>set (rows df). \<exists>vn. r ''var_name'' = Str vn \<and> region_code vn = None) \<longrightarrow>
            load_timeseries_stacked df = Inl MissingRegion) \<and>
         ((\<forall>r\<in>set (rows df). \<forall>vn. r ''var_name'' = Str vn \<longrightarrow> region_code vn \<noteq> None) \<longrightarrow>
            (\<exists>out. load_timeseries_stacked df = Inr out \<and>
                   columns out = header_timeseries \<and>
                   map (\<lambda>r. r ''region'') (rows out) = map derived_region (rows df) \<and>
                   map (\<lambda>r. r ''var_name'') (rows out) = map (\<lambda>r. r ''var_name'') (rows df)))"
proof -
  let ?ids = "map (\<lambda>i. Num (Fin (real i))) [0..<length (rows df)]"
  let ?df1 = "add_column ''id_ts'' ?ids df"
  have len1: "length (rows ?df1) = length (rows df)" by (simp add: add_column_length)
  have names1: "map (\<lambda>r. r ''var_name'') (rows ?df1) = map (\<lambda>r. r ''var_name'') (rows df)"
    by (simp add: add_column_field)
  then have regions1: "extract_regions (rows ?df1) [] = extract_regions (rows df) []"
    by (rule extract_regions_names)
  have cols1: "columns ?df1 = required_without_region @ [''id_ts'']"
    by (simp add: add_column_def assms(1) required_without_region_def)
  have run: "load_timeseries_stacked df =
      (case extract_regions (rows df) [] of
         Inl e \<Rightarrow> Inl e
       | Inr region \<Rightarrow>
           select_columns header_timeseries
             (fold fill_optional [''var_unit'', ''source'', ''comment'']
                (add_column ''region'' region ?df1)))"
    using regions1 cols1
    by (simp add: load_timeseries_stacked_def Let_def assms(1) required_without_region_def
        schema_simps split: sum.splits)
  have missing: "load_timeseries_stacked df = Inl MissingRegion"
    if "\<exists>r\<in>set (rows df). \<exists>vn. r ''var_name'' = Str vn \<and> region_code vn = None"
    using extract_regions_missing [OF assms(2) that, of "[]"] run by simp
  have derived: "\<exists>out. load_timeseries_stacked df = Inr out \<and>
                   columns out = header_timeseries \<and>
                   map (\<lambda>r. r ''region'') (rows out) = map derived_region (rows df) \<and>
                   map (\<lambda>r. r ''var_name'') (rows out) = map (\<lambda>r. r ''var_name'') (rows df)"
    if "\<forall>r\<in>set (rows df). \<forall>vn. r ''var_name'' = Str vn \<longrightarrow> region_code vn \<noteq> None"
  proof -
    let ?region = "map derived_region (rows df)"
    let ?df2 = "add_column ''region'' ?region ?df1"
    let ?df3 = "fold fill_optional [''var_unit'', ''source'', ''comment''] ?df2"
    from assms(2) that
    have "\<forall>r\<in>set (rows df). \<exists>vn code. r ''var_name'' = Str vn \<and> region_code vn = Some code"
      by fastforce
    from extract_regions_all [OF this, of "[]"] run
    have load: "load_timeseries_stacked df = select_columns header_timeseries ?df3" by simp
    have len: "length ?region = length (rows ?df1)" by (simp add: len1)
    have "map (\<lambda>r. r ''region'') (rows ?df2) = ?region"
      using add_column_field [OF len, of "''region''" "''region''"] by simp
    then have region3: "map (\<lambda>r. r ''region'') (rows ?df3) = ?region"
      by (simp add: fill_optional_field)
    have "map (\<lambda>r. r ''var_name'') (rows ?df2) = map (\<lambda>r. r ''var_name'') (rows df)"
      using add_column_field [OF len, of "''var_name''" "''region''"] names1 by simp
    then have names3: "map (\<lambda>r. r ''var_name'') (rows ?df3) = map (\<lambda>r. r ''var_name'') (rows df)"
      by (simp add: fill_optional_field)
    have "set (columns ?df2) = insert ''region'' (set (columns ?df1))"
      by (auto simp: add_column_def)
    then have "set header_timeseries \<subseteq> set (columns ?df3)"
      by (auto simp: fill_optional_columns cols1 required_without_region_def
          header_timeseries_def)
    from select_columns_field [OF this] obtain out where
      out: "select_columns header_timeseries ?df3 = Inr out" "columns out = header_timeseries"
        "\<forall>k\<in>set header_timeseries. map (\<lambda>r. r k) (rows out) = map (\<lambda>r. r k) (rows ?df3)"
      by blast
    have "''region'' \<in> set header_timeseries" "''var_name'' \<in> set header_timeseries"
      by (simp_all add: header_timeseries_def)
    with out(3) region3 names3 have
      "map (\<lambda>r. r ''region'') (rows out) = ?region"
      "map (\<lambda>r. r ''var_name'') (rows out) = map (\<lambda>r. r ''var_name'') (rows df)"
      by simp_all
    with load out(1,2) show ?thesis by simp
  qed
  from missing derived show ?thesis by blast
qed

lemmas regionless_rows =
  bb_demand_def be_bb_link_def be_heat_def hh_demand_def regionless_record_def

theorem load_timeseries_derives_region_witness:
  "columns regionless_table = required_without_region \<and>
   columns nowhere_table = required_without_region \<and>
   bb_demand ''var_name'' = Str ''BB-electricity-something'' \<and>
   (\<exists>out. load_timeseries_stacked regionless_table = Inr out \<and>
          map (\<lambda>r. r ''region'') (rows out) = [Str ''BB'', Str ''BE_BB'', Str ''BE'']) \<and>
   load_timeseries_stacked nowhere_table = Inl MissingRegion"
proof -
  have cols: "columns regionless_table = required_without_region"
    "columns nowhere_table = required_without_region"
    by (simp_all add: regionless_table_def nowhere_table_def)
  have strings: "\<forall>r\<in>set (rows regionless_table). \<exists>vn. r ''var_name'' = Str vn"
    "\<forall>r\<in>set (rows nowhere_table). \<exists>vn. r ''var_name'' = Str vn"
    by (simp_all add: regionless_table_def nowhere_table_def regionless_rows)
  have codes: "derived_region bb_demand = Str ''BB''" "derived_region be_bb_link = Str ''BE_BB''"
    "derived_region be_heat = Str ''BE''"
    by (simp_all add: derived_region_def region_code_def regionless_rows)
  have named: "\<forall>r\<in>set (rows regionless_table).
      \<forall>vn. r ''var_name'' = Str vn \<longrightarrow> region_code vn \<noteq> None"
    by (simp add: regionless_table_def regionless_rows region_code_def)
  from load_timeseries_derives_region [OF cols(1) strings(1), THEN conjunct2] named
  obtain out where "load_timeseries_stacked regionless_table = Inr out"
    "map (\<lambda>r. r ''region'') (rows out) = map derived_region (rows regionless_table)"
    by blast
  with codes have derived: "\<exists>out. load_timeseries_stacked regionless_table = Inr out \<and>
          map (\<lambda>r. r ''region'') (rows out) = [Str ''BB'', Str ''BE_BB'', Str ''BE'']"
    by (simp add: regionless_table_def)
  have "\<exists>r\<in>set (rows nowhere_table). \<exists>vn. r ''var_name'' = Str vn \<and> region_code vn = None"
    by (simp add: nowhere_table_def regionless_rows region_code_def)
  with load_timeseries_derives_region [OF cols(2) strings(2), THEN conjunct1]
  have "load_timeseries_stacked nowhere_table = Inl MissingRegion" by blast
  moreover have "bb_demand ''var_name'' = Str ''BB-electricity-something''"
    by (simp add: regionless_rows)
  ultimately show ?thesis using cols derived by simp
qed

text \<open>
  The claim as stated derives the region for every stacked table without a region column.
  The table below has no region column, a unit column besides the required ones, and one row
  whose \<^verbatim>\<open>var_name\<close> contains \<open>BB\<close>. Its header equals neither the required header nor the
  required header without region, the block that derives the region is skipped, and the
  final selection of the full header fails on the first column that is absent.
\<close>

theorem load_timeseries_gate_counterexample:
  "''region'' \<notin> set (columns regionless_with_unit) \<and>
   rows regionless_with_unit = [bb_demand] \<and>
   bb_demand ''var_name'' = Str ''BB-electricity-something'' \<and>
   load_timeseries_stacked regionless_with_unit = Inl (KeyError ''id_ts'')"
  by (simp add: regionless_with_unit_def required_without_region_def regionless_rows
      load_timeseries_stacked_def select_columns_def schema_simps Let_def)

end
